theory Spec2Isabelle
  imports Main "HOL-Library.Word"
begin

section \<open>Data model of \<open>max/nn/transformer/distributed_transformer.py\<close>\<close>

text \<open>
  The module builds a dataflow graph; the embedding gives every graph value its contents.
  Hidden states, logits and weights are values of an opaque tensor type \<open>'t\<close> with the
  graph's addition. One-dimensional integer tensors have a fixed-width element type and
  wrap around: the row offsets are \<open>uint32\<close>, as the callers of this module and the
  attention kernels have them (\<open>32 word list\<close>), \<open>return_n_logits\<close> and the results of
  \<open>ops.range\<close> on \<open>int64\<close> constants are \<open>int64\<close> (\<open>64 word list\<close>). Signal buffers are \<open>'b\<close>, key/value cache collections \<open>'kv\<close>, a row-offsets
  tensor moved to a device \<open>'o\<close>. Callables of other modules (attention, norms, the
  sharded MLP, the allreduce, the output projection, the embedding, the graph
  operations) are function-valued fields and parameters; they build graph nodes and are
  taken as total. The field \<open>kv_params\<close> is stored and never read in this module and is
  left out, as are the tensor types collected in \<open>subgraph_input_types\<close>.
\<close>

datatype error =
    ValueError string
  | AssertionError string
  | IndexError
  | AttributeError

datatype DeviceRef = CPU | GPU nat

datatype DType = float32 | uint32 | int64

text \<open>\<open>ReturnLogits.ALL\<close> is written \<open>ALL'\<close>.\<close>

datatype ReturnLogits = LAST_TOKEN | VARIABLE | ALL'

datatype ShardingStrategy = tensor_parallel nat

record DistributedGemmConfig =
  enable_matmul_allreduce :: bool

text \<open>One per-device shard of the MLP: it is callable, and \<open>down_proj.weight\<close> is either
  retrievable (\<open>Some\<close>) or the attribute lookup raises (\<open>None\<close>).\<close>

record 't mlp_shard =
  shard_call :: "'t \<Rightarrow> 't"
  down_proj_weight :: "'t option"

record 't Shardable =
  sharding_strategy :: "ShardingStrategy option"
  shard_impl :: "ShardingStrategy option \<Rightarrow> DeviceRef list \<Rightarrow> 't mlp_shard list"

definition shard :: "'t Shardable \<Rightarrow> DeviceRef list \<Rightarrow> 't mlp_shard list" where
  "shard m devices = shard_impl m (sharding_strategy m) devices"

record ('t, 'b, 'kv, 'o) DistributedTransformerBlock =
  self_attn :: "nat \<Rightarrow> 't list \<Rightarrow> 'b list \<Rightarrow> 'kv list \<Rightarrow> 'o list \<Rightarrow> 't list"
  mlp :: "'t Shardable"
  mlp_shards :: "'t mlp_shard list"
  input_layernorm :: "'t list \<Rightarrow> 't list"
  post_attention_layernorm :: "'t list \<Rightarrow> 't list"
  block_devices :: "DeviceRef list"
  distributed_gemm_config :: "DistributedGemmConfig option"
  allreduce :: "'t list \<Rightarrow> 'b list \<Rightarrow> 't list"

text \<open>An integer tensor of one dimension, by element type.\<close>

datatype index_tensor = UInt32Tensor "32 word list" | Int64Tensor "64 word list"

text \<open>The graph operations the module calls: \<open>matmul_allreduce\<close>, \<open>ops.gather\<close>,
  \<open>ops.cast\<close>, \<open>ops.range\<close>, \<open>TensorValue.to\<close>, and the difference of a \<open>uint32\<close>
  and an \<open>int64\<close> element under the graph's type promotion (\<open>sub_promoted\<close>, used
  only in the \<open>VARIABLE\<close> branch).\<close>

record ('t, 'b, 'o) graph_ops =
  matmul_allreduce :: "'t list \<Rightarrow> 't list \<Rightarrow> 'b list \<Rightarrow> 't list"
  gather :: "'t \<Rightarrow> index_tensor \<Rightarrow> int \<Rightarrow> 't"
  cast :: "'t \<Rightarrow> DType \<Rightarrow> 't"
  range_op :: "64 word \<Rightarrow> 64 word \<Rightarrow> 64 word \<Rightarrow> DeviceRef \<Rightarrow> 64 word list"
  sub_promoted :: "32 word \<Rightarrow> 64 word \<Rightarrow> 64 word"
  tensor_to :: "'t \<Rightarrow> DeviceRef \<Rightarrow> 't"
  offsets_to :: "32 word list \<Rightarrow> DeviceRef \<Rightarrow> 'o"

section \<open>Helpers of the module and of Python\<close>

text \<open>\<open>take(it, n)\<close>: the next \<open>n\<close> items of an iterable.\<close>

definition take_items :: "'a list \<Rightarrow> nat \<Rightarrow> 'a list" where
  "take_items it n = take n it"

text \<open>\<open>distribute_value(v, devices)\<close> is \<open>[v.to(device) for device in devices]\<close>; the
  transfer \<open>to\<close> is the graph operation of the value's kind.\<close>

definition distribute_value :: "('v \<Rightarrow> DeviceRef \<Rightarrow> 'p) \<Rightarrow> 'v \<Rightarrow> DeviceRef list \<Rightarrow> 'p list" where
  "distribute_value to v devices = map (\<lambda>device. to v device) devices"

text \<open>\<open>xs[0]\<close> raises IndexError on an empty list.\<close>

definition first_item :: "'a list \<Rightarrow> error + 'a" where
  "first_item xs = (case xs of [] \<Rightarrow> Inl IndexError | x # _ \<Rightarrow> Inr x)"

text \<open>\<open>xs[i]\<close> for a Python integer: a negative index counts from the end.\<close>

definition list_index :: "'a list \<Rightarrow> int \<Rightarrow> error + 'a" where
  "list_index xs i =
     (if 0 \<le> i \<and> i < int (length xs) then Inr (xs ! nat i)
      else if i < 0 \<and> - int (length xs) \<le> i then Inr (xs ! nat (int (length xs) + i))
      else Inl IndexError)"

section \<open>DistributedTransformerBlock\<close>

text \<open>\<open>__init__\<close> (lines 61-83). \<open>Allreduce\<close> is the constructor of the collective, called
  with the number of devices. Nothing in the constructor raises.\<close>

definition DistributedTransformerBlock_init ::
  "(nat \<Rightarrow> 't list \<Rightarrow> 'b list \<Rightarrow> 't list) \<Rightarrow>
   (nat \<Rightarrow> 't list \<Rightarrow> 'b list \<Rightarrow> 'kv list \<Rightarrow> 'o list \<Rightarrow> 't list) \<Rightarrow> 't Shardable \<Rightarrow>
   ('t list \<Rightarrow> 't list) \<Rightarrow> ('t list \<Rightarrow> 't list) \<Rightarrow> DeviceRef list \<Rightarrow>
   DistributedGemmConfig option \<Rightarrow> ('t, 'b, 'kv, 'o) DistributedTransformerBlock" where
  "DistributedTransformerBlock_init Allreduce attention mlp0 attention_norm mlp_norm devices
       gemm_config =
     (let mlp1 = mlp0\<lparr>sharding_strategy := Some (tensor_parallel (length devices))\<rparr>
      in \<lparr>self_attn = attention,
          mlp = mlp1,
          mlp_shards = shard mlp1 devices,
          input_layernorm = attention_norm,
          post_attention_layernorm = mlp_norm,
          block_devices = devices,
          distributed_gemm_config = gemm_config,
          allreduce = Allreduce (length devices)\<rparr>)"

text \<open>Lines 106-109: \<open>[self.mlp_shards[i](norm_outs[i]) for i in range(len(self.mlp_shards))]\<close>;
  \<open>norm_outs[i]\<close> raises IndexError when the norm returned fewer values than there are
  shards.\<close>

fun apply_shards :: "'t mlp_shard list \<Rightarrow> nat \<Rightarrow> 't list \<Rightarrow> error + 't list" where
  "apply_shards [] i norm_outs = Inr []"
| "apply_shards (s # ss) i norm_outs =
     (if i < length norm_outs then
        (case apply_shards ss (Suc i) norm_outs of
           Inl e \<Rightarrow> Inl e
         | Inr rest \<Rightarrow> Inr (shard_call s (norm_outs ! i) # rest))
      else Inl IndexError)"

text \<open>Line 119: \<open>[layer.down_proj.weight for layer in self.mlp_shards]\<close>.\<close>

fun shard_weights :: "'t mlp_shard list \<Rightarrow> error + 't list" where
  "shard_weights [] = Inr []"
| "shard_weights (s # ss) =
     (case down_proj_weight s of
        None \<Rightarrow> Inl AttributeError
      | Some w \<Rightarrow> (case shard_weights ss of Inl e \<Rightarrow> Inl e | Inr ws \<Rightarrow> Inr (w # ws)))"

text \<open>\<open>__call__\<close> (lines 85-128). \<open>zip\<close> stops at the shorter list, as \<open>map2\<close> does.\<close>

definition DistributedTransformerBlock_call ::
  "('t::plus, 'b, 'o) graph_ops \<Rightarrow> ('t, 'b, 'kv, 'o) DistributedTransformerBlock \<Rightarrow> nat \<Rightarrow>
   't list \<Rightarrow> 'b list \<Rightarrow> 'kv list \<Rightarrow> 'o list \<Rightarrow> error + 't list" where
  "DistributedTransformerBlock_call ops self layer_idx xs signal_buffers kv_collections
       input_row_offsets =
     (let attn_outs = self_attn self layer_idx (input_layernorm self xs) signal_buffers
                        kv_collections input_row_offsets;
          hs = map2 (+) xs attn_outs;
          norm_outs = post_attention_layernorm self hs
      in case apply_shards (mlp_shards self) 0 norm_outs of
           Inl e \<Rightarrow> Inl e
         | Inr mlp_outs \<Rightarrow>
             (if distributed_gemm_config self = None
                 \<or> \<not> enable_matmul_allreduce (the (distributed_gemm_config self))
              then Inr (map2 (+) hs (allreduce self mlp_outs signal_buffers))
              else
                (case shard_weights (mlp_shards self) of
                   Inl e \<Rightarrow> Inl e
                 | Inr weights \<Rightarrow>
                     Inr (map2 (+) hs (matmul_allreduce ops mlp_outs weights signal_buffers)))))"

section \<open>DistributedTransformer\<close>

text \<open>
  An element of \<open>self.layers\<close> is a module; the forward pass calls it and, in subgraph
  mode, tests it with \<open>isinstance(_, DistributedTransformerBlock)\<close>. A layer owns its
  weights (those stored under the prefix \<open>layers.<idx>.\<close>); the embedding keeps them
  apart from the layer's structure, so that the module object is \<open>arch\<close> applied to
  \<open>weights\<close>.
\<close>

datatype ('t, 'b, 'kv, 'o) Module =
    BlockModule "('t, 'b, 'kv, 'o) DistributedTransformerBlock"
  | OtherModule "nat \<Rightarrow> 't list \<Rightarrow> 'b list \<Rightarrow> 'kv list \<Rightarrow> 'o list \<Rightarrow> error + 't list"

record ('t, 'b, 'kv, 'o, 'w) layer =
  arch :: "'w \<Rightarrow> ('t, 'b, 'kv, 'o) Module"
  weights :: "'w"

definition layer_module :: "('t, 'b, 'kv, 'o, 'w) layer \<Rightarrow> ('t, 'b, 'kv, 'o) Module" where
  "layer_module l = arch l (weights l)"

fun is_block :: "('t, 'b, 'kv, 'o) Module \<Rightarrow> bool" where
  "is_block (BlockModule _) = True"
| "is_block (OtherModule _) = False"

text \<open>\<open>layer(layer_idx, h, signal_buffers, kv_collections, input_row_offsets_)\<close>.\<close>

fun module_call ::
  "('t::plus, 'b, 'o) graph_ops \<Rightarrow> ('t, 'b, 'kv, 'o) Module \<Rightarrow> nat \<Rightarrow> 't list \<Rightarrow> 'b list \<Rightarrow>
   'kv list \<Rightarrow> 'o list \<Rightarrow> error + 't list" where
  "module_call ops (BlockModule b) idx h signal_buffers kv_collections offs =
     DistributedTransformerBlock_call ops b idx h signal_buffers kv_collections offs"
| "module_call ops (OtherModule f) idx h signal_buffers kv_collections offs =
     f idx h signal_buffers kv_collections offs"

record ('t, 'b, 'kv, 'o, 'w) DistributedTransformer =
  dim :: int
  n_heads :: int
  layers :: "('t, 'b, 'kv, 'o, 'w) layer list"
  norm :: "'t list \<Rightarrow> 't list"
  lm_head :: "'t list \<Rightarrow> 'b list \<Rightarrow> 't list"
  embed_tokens :: "'t \<Rightarrow> 'b list \<Rightarrow> 't list"
  kv_collection_constructor :: "'t list \<Rightarrow> 'kv"
  return_logits :: ReturnLogits
  devices :: "DeviceRef list"
  use_subgraphs :: bool
  subgraph_layer_groups :: "int list list"

text \<open>\<open>__init__\<close> (lines 134-172): the only check is the one on \<open>return_logits\<close>.\<close>

definition DistributedTransformer_init ::
  "int \<Rightarrow> int \<Rightarrow> ('t, 'b, 'kv, 'o, 'w) layer list \<Rightarrow> ('t list \<Rightarrow> 't list) \<Rightarrow>
   ('t list \<Rightarrow> 'b list \<Rightarrow> 't list) \<Rightarrow> ('t \<Rightarrow> 'b list \<Rightarrow> 't list) \<Rightarrow> ('t list \<Rightarrow> 'kv) \<Rightarrow>
   DeviceRef list \<Rightarrow> ReturnLogits \<Rightarrow> bool \<Rightarrow> int list list option \<Rightarrow>
   error + ('t, 'b, 'kv, 'o, 'w) DistributedTransformer" where
  "DistributedTransformer_init dim0 n_heads0 layers0 norm0 output embedding
       kv_collection_constructor0 devices0 return_logits0 use_subgraphs0
       subgraph_layer_groups0 =
     (let groups = (case subgraph_layer_groups0 of
                      None \<Rightarrow> [map int [0..<length layers0]]
                    | Some gs \<Rightarrow> gs);
          self = \<lparr>dim = dim0, n_heads = n_heads0, layers = layers0, norm = norm0,
                  lm_head = output, embed_tokens = embedding,
                  kv_collection_constructor = kv_collection_constructor0,
                  return_logits = return_logits0, devices = devices0,
                  use_subgraphs = use_subgraphs0, subgraph_layer_groups = groups\<rparr>
      in if return_logits self = VARIABLE
         then Inl (ValueError ''DistributedTransformer does not support variable logits.'')
         else Inr self)"

subsection \<open>Compiled units\<close>

text \<open>
  Modelled from the spec: \<open>Module.build_subgraph\<close> and \<open>ops.call\<close> are not in this
  module. By the spec a compiled unit is built from the group's template layer and is
  parameterized from outside by the layer index, which selects the weights through the
  prefix \<open>layers.<idx>.\<close>; the data flowing through the unit are the arguments of the
  call. So a unit keeps the template's structure, and calling it with the weights of
  layer \<open>idx\<close> runs that structure on them.
\<close>

record ('t, 'b, 'kv, 'o, 'w) subgraph =
  sg_group_idx :: nat
  sg_template :: "'w \<Rightarrow> ('t, 'b, 'kv, 'o) Module"
  sg_weight_prefix :: int

definition build_subgraph ::
  "('t, 'b, 'kv, 'o, 'w) layer \<Rightarrow> nat \<Rightarrow> int \<Rightarrow> ('t, 'b, 'kv, 'o, 'w) subgraph" where
  "build_subgraph subgraph_layer group_idx first_idx =
     \<lparr>sg_group_idx = group_idx, sg_template = arch subgraph_layer,
      sg_weight_prefix = first_idx\<rparr>"

definition ops_call ::
  "('t::plus, 'b, 'o) graph_ops \<Rightarrow> ('t, 'b, 'kv, 'o, 'w) subgraph \<Rightarrow> 'w \<Rightarrow> nat \<Rightarrow> 't list \<Rightarrow>
   'b list \<Rightarrow> 'kv list \<Rightarrow> 'o list \<Rightarrow> error + 't list" where
  "ops_call ops sg prefix_weights idx h signal_buffers kv_collections offs =
     module_call ops (sg_template sg prefix_weights) idx h signal_buffers kv_collections offs"

subsection \<open>The forward pass\<close>

text \<open>Lines 201-216: one compiled unit per group, built from the group's first layer.\<close>

fun build_subgraphs ::
  "('t, 'b, 'kv, 'o, 'w) layer list \<Rightarrow> int list list \<Rightarrow> nat \<Rightarrow>
   error + ('t, 'b, 'kv, 'o, 'w) subgraph list" where
  "build_subgraphs ls [] group_idx = Inr []"
| "build_subgraphs ls (layer_group # rest) group_idx =
     (if \<not> length layer_group > 0
      then Inl (AssertionError ''Subgraph layer groups must contain at least one layer'')
      else
        (case list_index ls (hd layer_group) of
           Inl e \<Rightarrow> Inl e
         | Inr subgraph_layer \<Rightarrow>
             (if \<not> is_block (layer_module subgraph_layer)
              then Inl (AssertionError ''Subgraph layer must be a DistributedTransformerBlock'')
              else
                (case build_subgraphs ls rest (Suc group_idx) of
                   Inl e \<Rightarrow> Inl e
                 | Inr subgraphs \<Rightarrow>
                     Inr (build_subgraph subgraph_layer group_idx (hd layer_group)
                            # subgraphs)))))"

text \<open>Lines 221-225: the index of the first group that contains \<open>idx\<close>.\<close>

fun find_group :: "nat \<Rightarrow> int list list \<Rightarrow> nat \<Rightarrow> nat option" where
  "find_group idx [] group_idx = None"
| "find_group idx (layer_group # rest) group_idx =
     (if int idx \<in> set layer_group then Some group_idx
      else find_group idx rest (Suc group_idx))"

text \<open>Lines 219-249: the layers in stack order, each through its group's unit or, outside
  every group, directly.\<close>

fun run_subgraph_layers ::
  "('t::plus, 'b, 'o) graph_ops \<Rightarrow> ('t, 'b, 'kv, 'o, 'w) subgraph list \<Rightarrow> int list list \<Rightarrow>
   ('t, 'b, 'kv, 'o, 'w) layer list \<Rightarrow> nat \<Rightarrow> 't list \<Rightarrow> 'b list \<Rightarrow> 'kv list \<Rightarrow> 'o list \<Rightarrow>
   error + 't list" where
  "run_subgraph_layers ops subgraphs groups [] idx h signal_buffers kv_collections offs = Inr h"
| "run_subgraph_layers ops subgraphs groups (l # ls) idx h signal_buffers kv_collections offs =
     (case
        (case find_group idx groups 0 of
           Some group_idx \<Rightarrow>
             (case list_index subgraphs (int group_idx) of
                Inl e \<Rightarrow> Inl e
              | Inr sg \<Rightarrow> ops_call ops sg (weights l) idx h signal_buffers kv_collections offs)
         | None \<Rightarrow> module_call ops (layer_module l) idx h signal_buffers kv_collections offs)
      of
        Inl e \<Rightarrow> Inl e
      | Inr h' \<Rightarrow>
          run_subgraph_layers ops subgraphs groups ls (Suc idx) h' signal_buffers
            kv_collections offs)"

text \<open>Lines 251-258.\<close>

fun run_direct_layers ::
  "('t::plus, 'b, 'o) graph_ops \<Rightarrow> ('t, 'b, 'kv, 'o, 'w) layer list \<Rightarrow> nat \<Rightarrow> 't list \<Rightarrow>
   'b list \<Rightarrow> 'kv list \<Rightarrow> 'o list \<Rightarrow> error + 't list" where
  "run_direct_layers ops [] idx h signal_buffers kv_collections offs = Inr h"
| "run_direct_layers ops (l # ls) idx h signal_buffers kv_collections offs =
     (case module_call ops (layer_module l) idx h signal_buffers kv_collections offs of
        Inl e \<Rightarrow> Inl e
      | Inr h' \<Rightarrow> run_direct_layers ops ls (Suc idx) h' signal_buffers kv_collections offs)"

text \<open>Lines 182-258: embedding, cache collections, per-device row offsets, then the
  layer stack in the configured mode.\<close>

definition run_layers ::
  "('t::plus, 'b, 'o) graph_ops \<Rightarrow> ('t, 'b, 'kv, 'o, 'w) DistributedTransformer \<Rightarrow> 't \<Rightarrow>
   'b list \<Rightarrow> 't list list \<Rightarrow> 32 word list \<Rightarrow> error + 't list" where
  "run_layers ops self tokens signal_buffers kv_cache_inputs_per_dev input_row_offsets =
     (let h = embed_tokens self tokens signal_buffers;
          kv_collections = map (kv_collection_constructor self) kv_cache_inputs_per_dev;
          input_row_offsets_dev = distribute_value (offsets_to ops) input_row_offsets (devices self)
      in if use_subgraphs self then
           (case build_subgraphs (layers self) (subgraph_layer_groups self) 0 of
              Inl e \<Rightarrow> Inl e
            | Inr subgraphs \<Rightarrow>
                run_subgraph_layers ops subgraphs (subgraph_layer_groups self) (layers self) 0 h
                  signal_buffers kv_collections input_row_offsets_dev)
         else run_direct_layers ops (layers self) 0 h signal_buffers kv_collections
                input_row_offsets_dev)"

text \<open>Line 260: \<open>input_row_offsets[1:] - 1\<close>. The scalar takes the element type of the
  tensor, so the subtraction is the one of \<open>uint32\<close>: an offset 0 gives 4294967295.\<close>

definition last_token_indices :: "32 word list \<Rightarrow> 32 word list" where
  "last_token_indices input_row_offsets = map (\<lambda>v. v - 1) (drop 1 input_row_offsets)"

text \<open>A returned tuple holds tensors and, for the offsets, an integer tensor.\<close>

datatype 't TensorValue = Tensor 't | IntTensor index_tensor

text \<open>Lines 259-306. \<open>last_indices.shape[0] + return_n_logits[0]\<close> is an \<open>int64\<close> sum.
  In the \<open>VARIABLE\<close> branch \<open>ops.unsqueeze(input_row_offsets[1:], -1)
  - return_n_logits_range\<close> is the matrix with one row per sequence, and the reshape to
  \<open>(-1,)\<close> lays its rows end to end.\<close>

definition logit_extraction ::
  "('t::plus, 'b, 'o) graph_ops \<Rightarrow> ('t, 'b, 'kv, 'o, 'w) DistributedTransformer \<Rightarrow> 't list \<Rightarrow>
   'b list \<Rightarrow> 64 word list \<Rightarrow> 32 word list \<Rightarrow> error + 't TensorValue list" where
  "logit_extraction ops self h signal_buffers return_n_logits input_row_offsets =
     (case first_item h of
        Inl e \<Rightarrow> Inl e
      | Inr h0 \<Rightarrow>
          (let last_token_h =
                 gather ops h0 (UInt32Tensor (last_token_indices input_row_offsets)) 0;
               last_token_distributed =
                 distribute_value (tensor_to ops) last_token_h (devices self)
           in case first_item (lm_head self (norm self last_token_distributed) signal_buffers) of
                Inl e \<Rightarrow> Inl e
              | Inr last_out \<Rightarrow>
                  (let last_logits = cast ops last_out float32
                   in case
                        (if return_logits self = VARIABLE then
                           (case first_item return_n_logits of
                              Inl e \<Rightarrow> Inl e
                            | Inr k \<Rightarrow>
                                (case first_item (devices self) of
                                   Inl e \<Rightarrow> Inl e
                                 | Inr device0 \<Rightarrow>
                                     (let return_n_logits_range = range_op ops k 0 (- 1) device0;
                                          last_indices =
                                            concat (map (\<lambda>v. map (\<lambda>r. sub_promoted ops v r)
                                                            return_n_logits_range)
                                                      (drop 1 input_row_offsets))
                                      in case first_item (lm_head self (norm self h) signal_buffers) of
                                           Inl e \<Rightarrow> Inl e
                                         | Inr all_out \<Rightarrow>
                                             Inr (Some (gather ops (cast ops all_out float32)
                                                          (Int64Tensor last_indices) 0),
                                                  Some (Int64Tensor
                                                          (range_op ops 0
                                                             (of_nat (length last_indices) + k)
                                                             k device0))))))
                         else if return_logits self = ALL' then
                           (case first_item (lm_head self (norm self h) signal_buffers) of
                              Inl e \<Rightarrow> Inl e
                            | Inr all_out \<Rightarrow>
                                Inr (Some (cast ops all_out float32),
                                     Some (UInt32Tensor input_row_offsets)))
                         else Inr (None, None))
                      of
                        Inl e \<Rightarrow> Inl e
                      | Inr (logits, offsets) \<Rightarrow>
                          (if logits \<noteq> None \<and> offsets \<noteq> None
                           then Inr [Tensor last_logits, Tensor (the logits),
                                     IntTensor (the offsets)]
                           else Inr [Tensor last_logits]))))"

text \<open>\<open>__call__\<close> (lines 174-306).\<close>

definition DistributedTransformer_call ::
  "('t::plus, 'b, 'o) graph_ops \<Rightarrow> ('t, 'b, 'kv, 'o, 'w) DistributedTransformer \<Rightarrow> 't \<Rightarrow>
   'b list \<Rightarrow> 't list list \<Rightarrow> 64 word list \<Rightarrow> 32 word list \<Rightarrow>
   error + 't TensorValue list" where
  "DistributedTransformer_call ops self tokens signal_buffers kv_cache_inputs_per_dev
       return_n_logits input_row_offsets =
     (case run_layers ops self tokens signal_buffers kv_cache_inputs_per_dev input_row_offsets of
        Inl e \<Rightarrow> Inl e
      | Inr h \<Rightarrow>
          logit_extraction ops self h signal_buffers return_n_logits input_row_offsets)"

section \<open>The block sequence as the specification words it\<close>

text \<open>
  The seven steps in the order of the specification, every per-device list written slot
  by slot over the device positions \<open>0 ..< n\<close>: (1) pre-attention norm, (2)
  self-attention, (3) residual add, (4) post-attention norm, (5) the sharded MLP, shard
  \<open>i\<close> on slot \<open>i\<close>, (6) the collective reduction by the configured strategy, (7)
  residual add.
\<close>

definition block_sequence ::
  "('t::plus, 'b, 'o) graph_ops \<Rightarrow> ('t, 'b, 'kv, 'o) DistributedTransformerBlock \<Rightarrow> nat \<Rightarrow> nat \<Rightarrow>
   't list \<Rightarrow> 'b list \<Rightarrow> 'kv list \<Rightarrow> 'o list \<Rightarrow> 't list" where
  "block_sequence ops self n layer_idx xs signal_buffers kv_collections input_row_offsets =
     (let normed = input_layernorm self xs;
          attn = self_attn self layer_idx normed signal_buffers kv_collections input_row_offsets;
          hidden = map (\<lambda>i. xs ! i + attn ! i) [0..<n];
          normed2 = post_attention_layernorm self hidden;
          partials = map (\<lambda>i. shard_call (mlp_shards self ! i) (normed2 ! i)) [0..<n];
          reduced =
            (case distributed_gemm_config self of
               None \<Rightarrow> allreduce self partials signal_buffers
             | Some cfg \<Rightarrow>
                 if enable_matmul_allreduce cfg
                 then matmul_allreduce ops partials
                        (map (\<lambda>i. the (down_proj_weight (mlp_shards self ! i))) [0..<n])
                        signal_buffers
                 else allreduce self partials signal_buffers)
      in map (\<lambda>i. hidden ! i + reduced ! i) [0..<n])"

section \<open>Subgraph groups as the specification words them\<close>

text \<open>
  The invariants of the specification on the groups of a model: a group is a non-empty
  list of layer indices of the stack, every layer appears in at most one group, the
  template layer (the first index) is a DistributedTransformerBlock, and every layer of
  a group is structurally identical to its template.
\<close>

definition well_formed_groups ::
  "('t, 'b, 'kv, 'o, 'w) layer list \<Rightarrow> int list list \<Rightarrow> bool" where
  "well_formed_groups ls groups \<longleftrightarrow>
     distinct (concat groups) \<and>
     (\<forall>g\<in>set groups.
        g \<noteq> [] \<and> (\<forall>i\<in>set g. 0 \<le> i \<and> i < int (length ls)) \<and>
        is_block (layer_module (ls ! nat (hd g))) \<and>
        (\<forall>i\<in>set g. arch (ls ! nat i) = arch (ls ! nat (hd g))))"

text \<open>The stack run with one compiled unit shared by all layers: layer \<open>idx\<close> is the call
  of the unit with the weights of layer \<open>idx\<close>.\<close>

fun run_unit_layers ::
  "('t::plus, 'b, 'o) graph_ops \<Rightarrow> ('t, 'b, 'kv, 'o, 'w) subgraph \<Rightarrow>
   ('t, 'b, 'kv, 'o, 'w) layer list \<Rightarrow> nat \<Rightarrow> 't list \<Rightarrow> 'b list \<Rightarrow> 'kv list \<Rightarrow> 'o list \<Rightarrow>
   error + 't list" where
  "run_unit_layers ops sg [] idx h signal_buffers kv_collections offs = Inr h"
| "run_unit_layers ops sg (l # ls) idx h signal_buffers kv_collections offs =
     (case ops_call ops sg (weights l) idx h signal_buffers kv_collections offs of
        Inl e \<Rightarrow> Inl e
      | Inr h' \<Rightarrow> run_unit_layers ops sg ls (Suc idx) h' signal_buffers kv_collections offs)"

section \<open>An example configuration\<close>

text \<open>Two devices, two layers whose weights are a single integer, tensors that are
  integers: small enough to evaluate every definition above.\<close>

definition ex_ops :: "(int, nat, 32 word list) graph_ops" where
  "ex_ops = \<lparr>matmul_allreduce = (\<lambda>outs ws sb. map (\<lambda>_. sum_list (map2 (*) outs ws)) outs),
             gather = (\<lambda>h idx axis. h * 100 +
                         (case idx of UInt32Tensor ws \<Rightarrow> sum_list (map uint ws)
                                    | Int64Tensor ws \<Rightarrow> sum_list (map sint ws))),
             cast = (\<lambda>x d. x),
             range_op = (\<lambda>a b c d. []),
             sub_promoted = (\<lambda>v r. ucast v - r),
             tensor_to = (\<lambda>x d. x),
             offsets_to = (\<lambda>offs d. offs)\<rparr>"

definition ex_shard :: "int \<Rightarrow> bool \<Rightarrow> int mlp_shard" where
  "ex_shard w has_w = \<lparr>shard_call = (\<lambda>x. w * x), down_proj_weight = (if has_w then Some w else None)\<rparr>"

definition ex_mlp :: "int \<Rightarrow> bool \<Rightarrow> int Shardable" where
  "ex_mlp w has_w = \<lparr>sharding_strategy = None,
                  shard_impl = (\<lambda>s devs. map (\<lambda>d. ex_shard w has_w) devs)\<rparr>"

definition ex_block :: "bool \<Rightarrow> DistributedGemmConfig option \<Rightarrow> int \<Rightarrow> (int, nat, nat, 32 word list) DistributedTransformerBlock" where
  "ex_block has_w cfg w =
     DistributedTransformerBlock_init (\<lambda>n outs sb. map (\<lambda>_. sum_list outs) outs)
       (\<lambda>idx xs sb kv offs. map (\<lambda>x. x + int idx) xs) (ex_mlp w has_w)
       (map (\<lambda>x. 2 * x)) (map (\<lambda>x. x + 1)) [GPU 0, GPU 1] cfg"

definition ex_layer :: "int \<Rightarrow> (int, nat, nat, 32 word list, int) layer" where
  "ex_layer w = \<lparr>arch = (\<lambda>v. BlockModule (ex_block True None v)), weights = w\<rparr>"


definition ex_norm :: "int list \<Rightarrow> int list" where
  "ex_norm = map (\<lambda>x. x + 1)"

definition ex_lm_head :: "int list \<Rightarrow> nat list \<Rightarrow> int list" where
  "ex_lm_head = (\<lambda>xs sb. map (\<lambda>x. 3 * x) xs)"

definition ex_embed :: "int \<Rightarrow> nat list \<Rightarrow> int list" where
  "ex_embed = (\<lambda>tok sb. [tok, tok])"

definition ex_kv :: "int list \<Rightarrow> nat" where
  "ex_kv = length"

definition ex_model ::
  "ReturnLogits \<Rightarrow> bool \<Rightarrow> int list list \<Rightarrow> (int, nat, nat, 32 word list, int) DistributedTransformer" where
  "ex_model rl us groups =
     \<lparr>dim = 4, n_heads = 2, layers = [ex_layer 2, ex_layer 3],
      norm = ex_norm, lm_head = ex_lm_head, embed_tokens = ex_embed,
      kv_collection_constructor = ex_kv,
      return_logits = rl, devices = [GPU 0, GPU 1], use_subgraphs = us,
      subgraph_layer_groups = groups\<rparr>"

text \<open>A block of another structure (its attention differs), and a stack that mixes the
  two structures.\<close>

definition ex_shifted_block :: "int \<Rightarrow> (int, nat, nat, 32 word list) DistributedTransformerBlock" where
  "ex_shifted_block w =
     DistributedTransformerBlock_init (\<lambda>n outs sb. map (\<lambda>_. sum_list outs) outs)
       (\<lambda>idx xs sb kv offs. map (\<lambda>x. x + int idx + 5) xs) (ex_mlp w True)
       (map (\<lambda>x. 2 * x)) (map (\<lambda>x. x + 1)) [GPU 0, GPU 1] None"

definition ex_shifted_layer :: "int \<Rightarrow> (int, nat, nat, 32 word list, int) layer" where
  "ex_shifted_layer w = \<lparr>arch = (\<lambda>v. BlockModule (ex_shifted_block v)), weights = w\<rparr>"

definition ex_mixed_model ::
  "ReturnLogits \<Rightarrow> bool \<Rightarrow> int list list \<Rightarrow>
   (int, nat, nat, 32 word list, int) DistributedTransformer" where
  "ex_mixed_model rl us groups =
     \<lparr>dim = 4, n_heads = 2, layers = [ex_layer 2, ex_shifted_layer 3],
      norm = ex_norm, lm_head = ex_lm_head, embed_tokens = ex_embed,
      kv_collection_constructor = ex_kv,
      return_logits = rl, devices = [GPU 0, GPU 1], use_subgraphs = us,
      subgraph_layer_groups = groups\<rparr>"

section \<open>Construction of the model\<close>

text \<open>C1: constructing a DistributedTransformer with \<open>return_logits = VARIABLE\<close> raises
  the ValueError in the constructor, whatever the other arguments are, so that no model
  exists on which a forward pass could be attempted; with \<open>LAST_TOKEN\<close> and with
  \<open>ALL\<close> the constructor returns a model.\<close>

theorem variable_logits_rejected_at_construction:
  "DistributedTransformer_init d n ls nm out emb kvc devs VARIABLE us g
     = Inl (ValueError ''DistributedTransformer does not support variable logits.'')
   \<and> (\<exists>m. DistributedTransformer_init d n ls nm out emb kvc devs LAST_TOKEN us g = Inr m)
   \<and> (\<exists>m. DistributedTransformer_init d n ls nm out emb kvc devs ALL' us g = Inr m)"
  by (simp add: DistributedTransformer_init_def Let_def)

theorem variable_logits_rejected_at_construction_witness:
  "DistributedTransformer_init 4 2 [ex_layer 2, ex_layer 3] ex_norm ex_lm_head ex_embed ex_kv
       [GPU 0, GPU 1] VARIABLE False
       (Some [[0, 1]])
     = Inl (ValueError ''DistributedTransformer does not support variable logits.'')
   \<and> DistributedTransformer_init 4 2 [ex_layer 2, ex_layer 3] ex_norm ex_lm_head ex_embed ex_kv
       [GPU 0, GPU 1] LAST_TOKEN False (Some [[0, 1]])
     = Inr (ex_model LAST_TOKEN False [[0, 1]])"
  using variable_logits_rejected_at_construction [of 4 2 "[ex_layer 2, ex_layer 3]" ex_norm
      ex_lm_head ex_embed ex_kv "[GPU 0, GPU 1]" False "Some [[0, 1]]"]
  by (simp add: DistributedTransformer_init_def ex_model_def)


lemma find_group_default:
  "idx < n \<Longrightarrow> find_group idx [map int [0..<n]] k = Some k"
  by simp

lemma list_index_0: "list_index (l # rest) 0 = Inr l"
  by (simp add: list_index_def)

lemma run_subgraph_layers_single_unit:
  "idx + length rest = n \<Longrightarrow>
     run_subgraph_layers ops [sg] [map int [0..<n]] rest idx h sb kv offs
       = run_unit_layers ops sg rest idx h sb kv offs"
proof (induction rest arbitrary: idx h)
  case Nil
  then show ?case by simp
next
  case (Cons l rest)
  from Cons.prems have "idx < n" by simp
  then have grp: "find_group idx [map int [0..<n]] 0 = Some 0"
    by (rule find_group_default)
  have nxt: "Suc idx + length rest = n" using Cons.prems by simp
  show ?case
    using Cons.IH [OF nxt]
    by (simp add: grp list_index_0 cong: sum.case_cong del: find_group.simps)
qed

text \<open>C10: constructed with \<open>subgraph_layer_groups = None\<close>, the model has exactly one
  group, holding the layer indices \<open>0 .. len(layers) - 1\<close> in order, and every layer index
  is found in that group (group 0). When there is a layer 0 and it is a
  DistributedTransformerBlock, one compiled unit is built, from layer 0, and in subgraph
  mode the forward pass runs every layer of the stack through that unit: the hidden
  states are those of \<open>run_unit_layers\<close> on the whole stack, and the call returns the
  logits extracted from them. (With no layer at all the default group is empty, there
  is no layer 0, and the subgraph-mode call stops at the assertion of line 203.)\<close>

theorem default_groups_single_group:
  assumes "rl \<noteq> VARIABLE"
  shows "\<exists>m. DistributedTransformer_init d n ls nm out emb kvc devs rl us None = Inr m
     \<and> layers m = ls
     \<and> subgraph_layer_groups m = [map int [0..<length ls]]
     \<and> (\<forall>idx<length ls. find_group idx (subgraph_layer_groups m) 0 = Some 0)
     \<and> (\<forall>l rest. ls = l # rest \<and> is_block (layer_module l) \<longrightarrow>
          build_subgraphs (layers m) (subgraph_layer_groups m) 0 = Inr [build_subgraph l 0 0]
          \<and> (us \<longrightarrow>
               run_layers ops m tokens sb kvs offs
                 = run_unit_layers ops (build_subgraph l 0 0) ls 0 (emb tokens sb) sb
                     (map kvc kvs) (distribute_value (offsets_to ops) offs devs)
               \<and> DistributedTransformer_call ops m tokens sb kvs rn offs
                 = (case run_unit_layers ops (build_subgraph l 0 0) ls 0 (emb tokens sb) sb
                           (map kvc kvs) (distribute_value (offsets_to ops) offs devs) of
                      Inl e \<Rightarrow> Inl e
                    | Inr h \<Rightarrow> logit_extraction ops m h sb rn offs)))"
proof -
  let ?m = "\<lparr>dim = d, n_heads = n, layers = ls, norm = nm, lm_head = out, embed_tokens = emb,
             kv_collection_constructor = kvc, return_logits = rl, devices = devs,
             use_subgraphs = us, subgraph_layer_groups = [map int [0..<length ls]]\<rparr>"
  let ?run = "\<lambda>l. run_unit_layers ops (build_subgraph l 0 0) ls 0 (emb tokens sb) sb
                     (map kvc kvs) (distribute_value (offsets_to ops) offs devs)"
  have init: "DistributedTransformer_init d n ls nm out emb kvc devs rl us None = Inr ?m"
    using assms by (simp add: DistributedTransformer_init_def Let_def)
  have grp: "\<forall>idx<length ls. find_group idx (subgraph_layer_groups ?m) 0 = Some 0"
    by (simp add: find_group_default)
  have tmpl: "\<forall>l rest. ls = l # rest \<and> is_block (layer_module l) \<longrightarrow>
          build_subgraphs (layers ?m) (subgraph_layer_groups ?m) 0 = Inr [build_subgraph l 0 0]
          \<and> (us \<longrightarrow>
               run_layers ops ?m tokens sb kvs offs = ?run l
               \<and> DistributedTransformer_call ops ?m tokens sb kvs rn offs
                 = (case ?run l of
                      Inl e \<Rightarrow> Inl e
                    | Inr h \<Rightarrow> logit_extraction ops ?m h sb rn offs))"
  proof (intro allI impI)
    fix l rest
    assume a: "ls = l # rest \<and> is_block (layer_module l)"
    have "map int [0..<length ls] = 0 # map int [Suc 0..<length ls]"
      using a by (simp add: upt_conv_Cons del: upt_Suc)
    then have bs: "build_subgraphs ls [map int [0..<length ls]] 0 = Inr [build_subgraph l 0 0]"
      using a by (simp add: list_index_0 del: upt_Suc)
    have single: "run_subgraph_layers ops [build_subgraph l 0 0] [map int [0..<length ls]] ls 0
            (emb tokens sb) sb (map kvc kvs) (distribute_value (offsets_to ops) offs devs)
          = ?run l"
      by (rule run_subgraph_layers_single_unit) simp
    have run: "us \<longrightarrow> run_layers ops ?m tokens sb kvs offs = ?run l"
      by (simp add: run_layers_def Let_def bs single
            del: upt_Suc build_subgraphs.simps run_subgraph_layers.simps)
    have call: "us \<longrightarrow> DistributedTransformer_call ops ?m tokens sb kvs rn offs
                 = (case ?run l of
                      Inl e \<Rightarrow> Inl e
                    | Inr h \<Rightarrow> logit_extraction ops ?m h sb rn offs)"
    proof
      assume us
      with run have r: "run_layers ops ?m tokens sb kvs offs = ?run l" by simp
      show "DistributedTransformer_call ops ?m tokens sb kvs rn offs
                 = (case ?run l of
                      Inl e \<Rightarrow> Inl e
                    | Inr h \<Rightarrow> logit_extraction ops ?m h sb rn offs)"
        unfolding DistributedTransformer_call_def r by (rule refl)
    qed
    from bs run call
    show "build_subgraphs (layers ?m) (subgraph_layer_groups ?m) 0 = Inr [build_subgraph l 0 0]
          \<and> (us \<longrightarrow>
               run_layers ops ?m tokens sb kvs offs = ?run l
               \<and> DistributedTransformer_call ops ?m tokens sb kvs rn offs
                 = (case ?run l of
                      Inl e \<Rightarrow> Inl e
                    | Inr h \<Rightarrow> logit_extraction ops ?m h sb rn offs))"
      by simp
  qed
  show ?thesis
    using init grp tmpl by (intro exI [of _ ?m]) simp
qed

lemmas ex_defs = ex_model_def ex_norm_def ex_lm_head_def ex_embed_def ex_kv_def ex_ops_def
  ex_layer_def ex_block_def ex_mlp_def ex_shard_def
  DistributedTransformer_call_def run_layers_def logit_extraction_def
  DistributedTransformerBlock_call_def DistributedTransformerBlock_init_def shard_def
  distribute_value_def first_item_def last_token_indices_def layer_module_def Let_def
  list_index_def build_subgraph_def ops_call_def

lemma ex_unit_run:
  "run_unit_layers ex_ops (build_subgraph (ex_layer 2) 0 0) [ex_layer 2, ex_layer 3] 0
       (ex_embed 1 [0, 0]) [0, 0] (map ex_kv [[], []])
       (distribute_value (offsets_to ex_ops) [0, 4, 7] [GPU 0, GPU 1])
     = Inr [412, 412]"
  by (simp add: ex_defs)

lemma ex_extract_all:
  "logit_extraction ex_ops (ex_model ALL' True [[0, 1]]) [412, 412] [0, 0] [1] [0, 4, 7]
     = Inr [Tensor 123630, Tensor 1239, IntTensor (UInt32Tensor [0, 4, 7])]"
  by (simp add: ex_defs)

theorem default_groups_single_group_witness:
  "ALL' \<noteq> VARIABLE \<and>
   DistributedTransformer_init 4 2 [ex_layer 2, ex_layer 3] ex_norm ex_lm_head ex_embed ex_kv
       [GPU 0, GPU 1] ALL' True None = Inr (ex_model ALL' True [[0, 1]])
   \<and> is_block (layer_module (ex_layer 2))
   \<and> build_subgraphs (layers (ex_model ALL' True [[0, 1]]))
        (subgraph_layer_groups (ex_model ALL' True [[0, 1]])) 0
        = Inr [build_subgraph (ex_layer 2) 0 0]
   \<and> run_layers ex_ops (ex_model ALL' True [[0, 1]]) 1 [0, 0] [[], []] [0, 4, 7]
        = run_unit_layers ex_ops (build_subgraph (ex_layer 2) 0 0) [ex_layer 2, ex_layer 3] 0
            (ex_embed 1 [0, 0]) [0, 0] (map ex_kv [[], []])
            (distribute_value (offsets_to ex_ops) [0, 4, 7] [GPU 0, GPU 1])
   \<and> run_layers ex_ops (ex_model ALL' True [[0, 1]]) 1 [0, 0] [[], []] [0, 4, 7]
        = Inr [412, 412]
   \<and> DistributedTransformer_call ex_ops (ex_model ALL' True [[0, 1]]) 1 [0, 0] [[], []] [1]
        [0, 4, 7]
        = Inr [Tensor 123630, Tensor 1239, IntTensor (UInt32Tensor [0, 4, 7])]"
proof -
  have blk: "is_block (layer_module (ex_layer 2))"
    by (simp add: layer_module_def ex_layer_def)
  have ne: "ALL' \<noteq> VARIABLE" by simp
  have init: "DistributedTransformer_init 4 2 [ex_layer 2, ex_layer 3] ex_norm ex_lm_head
       ex_embed ex_kv [GPU 0, GPU 1] ALL' True None = Inr (ex_model ALL' True [[0, 1]])"
    by (simp add: DistributedTransformer_init_def ex_model_def upt_conv_Cons del: upt_Suc)
  from default_groups_single_group [OF ne, of 4 2 "[ex_layer 2, ex_layer 3]" ex_norm ex_lm_head
      ex_embed ex_kv "[GPU 0, GPU 1]" True ex_ops 1 "[0, 0]" "[[], []]" "[0, 4, 7]" "[1]"]
  obtain m where m: "DistributedTransformer_init 4 2 [ex_layer 2, ex_layer 3] ex_norm ex_lm_head
       ex_embed ex_kv [GPU 0, GPU 1] ALL' True None = Inr m"
    and b: "\<forall>l rest. [ex_layer 2, ex_layer 3] = l # rest \<and> is_block (layer_module l) \<longrightarrow>
          build_subgraphs (layers m) (subgraph_layer_groups m) 0 = Inr [build_subgraph l 0 0]
          \<and> (True \<longrightarrow>
               run_layers ex_ops m 1 [0, 0] [[], []] [0, 4, 7]
                 = run_unit_layers ex_ops (build_subgraph l 0 0) [ex_layer 2, ex_layer 3] 0
                     (ex_embed 1 [0, 0]) [0, 0] (map ex_kv [[], []])
                     (distribute_value (offsets_to ex_ops) [0, 4, 7] [GPU 0, GPU 1])
               \<and> DistributedTransformer_call ex_ops m 1 [0, 0] [[], []] [1] [0, 4, 7]
                 = (case run_unit_layers ex_ops (build_subgraph l 0 0)
                           [ex_layer 2, ex_layer 3] 0 (ex_embed 1 [0, 0]) [0, 0]
                           (map ex_kv [[], []])
                           (distribute_value (offsets_to ex_ops) [0, 4, 7] [GPU 0, GPU 1]) of
                      Inl e \<Rightarrow> Inl e
                    | Inr h \<Rightarrow> logit_extraction ex_ops m h [0, 0] [1] [0, 4, 7]))"
    by blast
  from m init have meq: "m = ex_model ALL' True [[0, 1]]" by simp
  from b blk have
    bs: "build_subgraphs (layers m) (subgraph_layer_groups m) 0
           = Inr [build_subgraph (ex_layer 2) 0 0]" and
    run: "run_layers ex_ops m 1 [0, 0] [[], []] [0, 4, 7]
                 = run_unit_layers ex_ops (build_subgraph (ex_layer 2) 0 0)
                     [ex_layer 2, ex_layer 3] 0
                     (ex_embed 1 [0, 0]) [0, 0] (map ex_kv [[], []])
                     (distribute_value (offsets_to ex_ops) [0, 4, 7] [GPU 0, GPU 1])" and
    call: "DistributedTransformer_call ex_ops m 1 [0, 0] [[], []] [1] [0, 4, 7]
                 = (case run_unit_layers ex_ops (build_subgraph (ex_layer 2) 0 0)
                           [ex_layer 2, ex_layer 3] 0 (ex_embed 1 [0, 0]) [0, 0]
                           (map ex_kv [[], []])
                           (distribute_value (offsets_to ex_ops) [0, 4, 7] [GPU 0, GPU 1]) of
                      Inl e \<Rightarrow> Inl e
                    | Inr h \<Rightarrow> logit_extraction ex_ops m h [0, 0] [1] [0, 4, 7])"
    by blast+
  have "DistributedTransformer_call ex_ops (ex_model ALL' True [[0, 1]]) 1 [0, 0] [[], []] [1]
          [0, 4, 7]
        = (case run_unit_layers ex_ops (build_subgraph (ex_layer 2) 0 0)
                  [ex_layer 2, ex_layer 3] 0 (ex_embed 1 [0, 0]) [0, 0]
                  (map ex_kv [[], []])
                  (distribute_value (offsets_to ex_ops) [0, 4, 7] [GPU 0, GPU 1]) of
             Inl e \<Rightarrow> Inl e
           | Inr h \<Rightarrow> logit_extraction ex_ops (ex_model ALL' True [[0, 1]]) h [0, 0] [1]
                       [0, 4, 7])"
    using call unfolding meq .
  also have "\<dots> = logit_extraction ex_ops (ex_model ALL' True [[0, 1]]) [412, 412] [0, 0] [1]
                       [0, 4, 7]"
    by (simp only: ex_unit_run sum.case)
  also note ex_extract_all
  finally have call': "DistributedTransformer_call ex_ops (ex_model ALL' True [[0, 1]]) 1 [0, 0]
        [[], []] [1] [0, 4, 7]
        = Inr [Tensor 123630, Tensor 1239, IntTensor (UInt32Tensor [0, 4, 7])]" .
  have bs': "build_subgraphs (layers (ex_model ALL' True [[0, 1]]))
        (subgraph_layer_groups (ex_model ALL' True [[0, 1]])) 0
        = Inr [build_subgraph (ex_layer 2) 0 0]"
    using bs unfolding meq .
  have run': "run_layers ex_ops (ex_model ALL' True [[0, 1]]) 1 [0, 0] [[], []] [0, 4, 7]
        = run_unit_layers ex_ops (build_subgraph (ex_layer 2) 0 0) [ex_layer 2, ex_layer 3] 0
            (ex_embed 1 [0, 0]) [0, 0] (map ex_kv [[], []])
            (distribute_value (offsets_to ex_ops) [0, 4, 7] [GPU 0, GPU 1])"
    using run unfolding meq .
  have run'': "run_layers ex_ops (ex_model ALL' True [[0, 1]]) 1 [0, 0] [[], []] [0, 4, 7]
        = Inr [412, 412]"
    using run' ex_unit_run by (rule trans)
  from ne init blk bs' run' run'' call' show ?thesis by blast
qed

section \<open>Logit extraction\<close>

lemma ex_call_all:
  "DistributedTransformer_call ex_ops (ex_model ALL' False [[0, 1]]) 1 [0, 0] [[], []] [1] [0, 4, 7]
     = Inr [Tensor 123630, Tensor 1239, IntTensor (UInt32Tensor [0, 4, 7])]"
  by (simp add: ex_defs)

lemma ex_call_last:
  "DistributedTransformer_call ex_ops (ex_model LAST_TOKEN False [[0, 1]]) 1 [0, 0] [[], []] [1]
       [0, 4, 7]
     = Inr [Tensor 123630]"
  by (simp add: ex_defs)

lemma ex_run_direct:
  "run_layers ex_ops (ex_model rl False gs) 1 [0, 0] [[], []] [0, 4, 7] = Inr [412, 412]"
  by (simp add: ex_defs)

lemma logit_extraction_Inr:
  assumes "logit_extraction ops self h sb rn offs = Inr r"
  shows "\<exists>h0 x. first_item h = Inr h0
     \<and> first_item (lm_head self (norm self (distribute_value (tensor_to ops)
            (gather ops h0 (UInt32Tensor (last_token_indices offs)) 0) (devices self))) sb)
         = Inr x
     \<and> (case return_logits self of
          LAST_TOKEN \<Rightarrow> r = [Tensor (cast ops x float32)]
        | ALL' \<Rightarrow> (\<exists>y. first_item (lm_head self (norm self h) sb) = Inr y
                    \<and> r = [Tensor (cast ops x float32), Tensor (cast ops y float32),
                           IntTensor (UInt32Tensor offs)])
        | VARIABLE \<Rightarrow> (\<exists>l ofs. r = [Tensor (cast ops x float32), Tensor l, IntTensor ofs]))"
  using assms
  by (cases "return_logits self")
     (auto simp: logit_extraction_def Let_def split: sum.splits)

lemma call_Inr:
  assumes "DistributedTransformer_call ops self tokens sb kvs rn offs = Inr r"
  shows "\<exists>h. run_layers ops self tokens sb kvs offs = Inr h
           \<and> logit_extraction ops self h sb rn offs = Inr r"
  using assms by (auto simp: DistributedTransformer_call_def split: sum.splits)

text \<open>C4: a forward call that returns has computed \<open>last_logits\<close> (the cast of the
  first output of \<open>lm_head\<close> on the normed, gathered last-token rows) and returns it
  first. With \<open>LAST_TOKEN\<close> the result is the 1-tuple \<open>(last_logits,)\<close>; with \<open>ALL\<close> it
  is the 3-tuple \<open>(last_logits, logits, offsets)\<close>, whose \<open>logits\<close> are the cast
  projection of the normed hidden states and whose \<open>offsets\<close> are the row offsets of
  the call.\<close>

theorem forward_output_tuple_shape:
  assumes "DistributedTransformer_call ops self tokens sb kvs rn offs = Inr r"
  shows "\<exists>h h0 x. run_layers ops self tokens sb kvs offs = Inr h
     \<and> first_item h = Inr h0
     \<and> first_item (lm_head self (norm self (distribute_value (tensor_to ops)
            (gather ops h0 (UInt32Tensor (last_token_indices offs)) 0) (devices self))) sb)
         = Inr x
     \<and> r \<noteq> [] \<and> hd r = Tensor (cast ops x float32)
     \<and> (return_logits self = LAST_TOKEN \<longrightarrow> r = [Tensor (cast ops x float32)])
     \<and> (return_logits self = ALL' \<longrightarrow>
          (\<exists>y. first_item (lm_head self (norm self h) sb) = Inr y
             \<and> r = [Tensor (cast ops x float32), Tensor (cast ops y float32),
                    IntTensor (UInt32Tensor offs)]))"
proof -
  from call_Inr [OF assms] obtain h where
    h: "run_layers ops self tokens sb kvs offs = Inr h" and
    e: "logit_extraction ops self h sb rn offs = Inr r" by blast
  from logit_extraction_Inr [OF e] obtain h0 x where
    h0: "first_item h = Inr h0" and
    x: "first_item (lm_head self (norm self (distribute_value (tensor_to ops)
            (gather ops h0 (UInt32Tensor (last_token_indices offs)) 0) (devices self))) sb)
         = Inr x" and
    c: "case return_logits self of
          LAST_TOKEN \<Rightarrow> r = [Tensor (cast ops x float32)]
        | ALL' \<Rightarrow> (\<exists>y. first_item (lm_head self (norm self h) sb) = Inr y
                    \<and> r = [Tensor (cast ops x float32), Tensor (cast ops y float32),
                           IntTensor (UInt32Tensor offs)])
        | VARIABLE \<Rightarrow> (\<exists>l ofs. r = [Tensor (cast ops x float32), Tensor l, IntTensor ofs])"
    by blast
  have "r \<noteq> [] \<and> hd r = Tensor (cast ops x float32)
     \<and> (return_logits self = LAST_TOKEN \<longrightarrow> r = [Tensor (cast ops x float32)])
     \<and> (return_logits self = ALL' \<longrightarrow>
          (\<exists>y. first_item (lm_head self (norm self h) sb) = Inr y
             \<and> r = [Tensor (cast ops x float32), Tensor (cast ops y float32),
                    IntTensor (UInt32Tensor offs)]))"
    using c by (cases "return_logits self") auto
  with h h0 x show ?thesis by blast
qed

text \<open>C6: with \<open>return_logits = ALL\<close> the second element of the result is the cast
  projection of the normed hidden states of every token (the whole \<open>h\<close>, no gather),
  and the third is the row-offsets argument itself.\<close>

theorem all_mode_projects_every_token_keeps_offsets:
  assumes "DistributedTransformer_call ops self tokens sb kvs rn offs = Inr r"
    and "return_logits self = ALL'"
  shows "\<exists>h y. run_layers ops self tokens sb kvs offs = Inr h
     \<and> first_item (lm_head self (norm self h) sb) = Inr y
     \<and> length r = 3
     \<and> r ! 1 = Tensor (cast ops y float32)
     \<and> r ! 2 = IntTensor (UInt32Tensor offs)"
proof -
  from call_Inr [OF assms(1)] obtain h where
    h: "run_layers ops self tokens sb kvs offs = Inr h" and
    e: "logit_extraction ops self h sb rn offs = Inr r" by blast
  from logit_extraction_Inr [OF e] assms(2) obtain x y where
    "first_item (lm_head self (norm self h) sb) = Inr y"
    "r = [Tensor (cast ops x float32), Tensor (cast ops y float32), IntTensor (UInt32Tensor offs)]"
    by auto
  with h show ?thesis by auto
qed

lemma uint32_pred: "w \<noteq> 0 \<Longrightarrow> uint (w - 1) = uint w - 1" for w :: "32 word"
  by uint_arith

lemma uint32_pred_between: "a < b \<Longrightarrow> a \<le> b - 1 \<and> b - 1 < b" for a b :: "32 word"
  by uint_arith

text \<open>C5: for row offsets of length \<open>num_sequences + 1\<close> the last-token indices are
  \<open>offsets[1:] - 1\<close> element by element, in the \<open>uint32\<close> arithmetic of the offsets
  tensor (one index per sequence; \<open>[0, 3, 5, 9]\<close> gives \<open>[2, 4, 8]\<close>). Read as integers
  they are \<open>offsets[i + 1] - 1\<close> wherever \<open>offsets[i + 1]\<close> is not 0, and for a
  non-empty sequence \<open>i\<close> the index lies among the rows of that sequence; an end offset
  0 wraps around to 4294967295. The hidden states that enter \<open>last_logits\<close> are the
  gather of \<open>h[0]\<close> at exactly these indices along axis 0.\<close>

theorem last_token_indices_offsets_minus_one:
  assumes "length offs = Suc n"
  shows "length (last_token_indices offs) = n
     \<and> (\<forall>i<n. last_token_indices offs ! i = offs ! Suc i - 1)
     \<and> (\<forall>i<n. offs ! Suc i \<noteq> 0 \<longrightarrow>
           uint (last_token_indices offs ! i) = uint (offs ! Suc i) - 1)
     \<and> (\<forall>i<n. offs ! i < offs ! Suc i \<longrightarrow>
           offs ! i \<le> last_token_indices offs ! i \<and> last_token_indices offs ! i < offs ! Suc i)
     \<and> last_token_indices [0, 3, 5, 9] = [2, 4, 8]
     \<and> (\<forall>r. DistributedTransformer_call ops self tokens sb kvs rn offs = Inr r \<longrightarrow>
          (\<exists>h h0 x. run_layers ops self tokens sb kvs offs = Inr h \<and> first_item h = Inr h0
             \<and> first_item (lm_head self (norm self (distribute_value (tensor_to ops)
                   (gather ops h0 (UInt32Tensor (map (\<lambda>i. offs ! Suc i - 1) [0..<n])) 0)
                   (devices self))) sb)
                 = Inr x
             \<and> hd r = Tensor (cast ops x float32)))"
proof -
  have len: "length (last_token_indices offs) = n"
    using assms by (simp add: last_token_indices_def)
  have nth: "\<forall>i<n. last_token_indices offs ! i = offs ! Suc i - 1"
    using assms by (simp add: last_token_indices_def)
  have int_reading: "\<forall>i<n. offs ! Suc i \<noteq> 0 \<longrightarrow>
           uint (last_token_indices offs ! i) = uint (offs ! Suc i) - 1"
    using nth by (simp add: uint32_pred)
  have inside: "\<forall>i<n. offs ! i < offs ! Suc i \<longrightarrow>
           offs ! i \<le> last_token_indices offs ! i \<and> last_token_indices offs ! i < offs ! Suc i"
    using nth by (simp add: uint32_pred_between)
  have ex: "last_token_indices [0, 3, 5, 9] = [2, 4, 8]"
    by (simp add: last_token_indices_def)
  have eq: "last_token_indices offs = map (\<lambda>i. offs ! Suc i - 1) [0..<n]"
    using len nth by (intro nth_equalityI) simp_all
  have call: "\<forall>r. DistributedTransformer_call ops self tokens sb kvs rn offs = Inr r \<longrightarrow>
          (\<exists>h h0 x. run_layers ops self tokens sb kvs offs = Inr h \<and> first_item h = Inr h0
             \<and> first_item (lm_head self (norm self (distribute_value (tensor_to ops)
                   (gather ops h0 (UInt32Tensor (map (\<lambda>i. offs ! Suc i - 1) [0..<n])) 0)
                   (devices self))) sb)
                 = Inr x
             \<and> hd r = Tensor (cast ops x float32))"
  proof (intro allI impI)
    fix r assume a: "DistributedTransformer_call ops self tokens sb kvs rn offs = Inr r"
    from call_Inr [OF a] obtain h where
      h: "run_layers ops self tokens sb kvs offs = Inr h" and
      e: "logit_extraction ops self h sb rn offs = Inr r" by blast
    from logit_extraction_Inr [OF e] obtain h0 x where
      h0: "first_item h = Inr h0" and
      x: "first_item (lm_head self (norm self (distribute_value (tensor_to ops)
            (gather ops h0 (UInt32Tensor (last_token_indices offs)) 0) (devices self))) sb)
           = Inr x" and
      c: "case return_logits self of
          LAST_TOKEN \<Rightarrow> r = [Tensor (cast ops x float32)]
        | ALL' \<Rightarrow> (\<exists>y. first_item (lm_head self (norm self h) sb) = Inr y
                    \<and> r = [Tensor (cast ops x float32), Tensor (cast ops y float32),
                           IntTensor (UInt32Tensor offs)])
        | VARIABLE \<Rightarrow> (\<exists>l ofs. r = [Tensor (cast ops x float32), Tensor l, IntTensor ofs])"
      by blast
    have "hd r = Tensor (cast ops x float32)"
      using c by (cases "return_logits self") auto
    with h h0 x eq
    show "\<exists>h h0 x. run_layers ops self tokens sb kvs offs = Inr h \<and> first_item h = Inr h0
             \<and> first_item (lm_head self (norm self (distribute_value (tensor_to ops)
                   (gather ops h0 (UInt32Tensor (map (\<lambda>i. offs ! Suc i - 1) [0..<n])) 0)
                   (devices self))) sb)
                 = Inr x
             \<and> hd r = Tensor (cast ops x float32)"
      by auto
  qed
  show ?thesis using len nth int_reading inside ex call by blast
qed

theorem forward_output_tuple_shape_witness:
  "DistributedTransformer_call ex_ops (ex_model LAST_TOKEN False [[0, 1]]) 1 [0, 0] [[], []] [1]
       [0, 4, 7] = Inr [Tensor 123630]
   \<and> DistributedTransformer_call ex_ops (ex_model ALL' False [[0, 1]]) 1 [0, 0] [[], []] [1]
       [0, 4, 7] = Inr [Tensor 123630, Tensor 1239, IntTensor (UInt32Tensor [0, 4, 7])]
   \<and> (\<exists>h h0 x. run_layers ex_ops (ex_model LAST_TOKEN False [[0, 1]]) 1 [0, 0] [[], []] [0, 4, 7]
          = Inr h
        \<and> first_item h = Inr h0
        \<and> first_item (lm_head (ex_model LAST_TOKEN False [[0, 1]])
             (norm (ex_model LAST_TOKEN False [[0, 1]]) (distribute_value (tensor_to ex_ops)
                (gather ex_ops h0 (UInt32Tensor (last_token_indices [0, 4, 7])) 0)
                (devices (ex_model LAST_TOKEN False [[0, 1]])))) [0, 0]) = Inr x
        \<and> [Tensor 123630] = [Tensor (cast ex_ops x float32)])
   \<and> (\<exists>h h0 x y. run_layers ex_ops (ex_model ALL' False [[0, 1]]) 1 [0, 0] [[], []] [0, 4, 7]
          = Inr h
        \<and> first_item h = Inr h0
        \<and> first_item (lm_head (ex_model ALL' False [[0, 1]])
             (norm (ex_model ALL' False [[0, 1]]) (distribute_value (tensor_to ex_ops)
                (gather ex_ops h0 (UInt32Tensor (last_token_indices [0, 4, 7])) 0)
                (devices (ex_model ALL' False [[0, 1]])))) [0, 0]) = Inr x
        \<and> first_item (lm_head (ex_model ALL' False [[0, 1]])
             (norm (ex_model ALL' False [[0, 1]]) h) [0, 0]) = Inr y
        \<and> [Tensor 123630, Tensor 1239, IntTensor (UInt32Tensor [0, 4, 7])]
            = [Tensor (cast ex_ops x float32), Tensor (cast ex_ops y float32),
               IntTensor (UInt32Tensor [0, 4, 7])])"
proof -
  have rl: "return_logits (ex_model LAST_TOKEN False [[0, 1]]) = LAST_TOKEN"
    by (simp add: ex_model_def)
  have ra: "return_logits (ex_model ALL' False [[0, 1]]) = ALL'"
    by (simp add: ex_model_def)
  have last: "\<exists>h h0 x. run_layers ex_ops (ex_model LAST_TOKEN False [[0, 1]]) 1 [0, 0] [[], []]
          [0, 4, 7] = Inr h
        \<and> first_item h = Inr h0
        \<and> first_item (lm_head (ex_model LAST_TOKEN False [[0, 1]])
             (norm (ex_model LAST_TOKEN False [[0, 1]]) (distribute_value (tensor_to ex_ops)
                (gather ex_ops h0 (UInt32Tensor (last_token_indices [0, 4, 7])) 0)
                (devices (ex_model LAST_TOKEN False [[0, 1]])))) [0, 0]) = Inr x
        \<and> [Tensor 123630] = [Tensor (cast ex_ops x float32)]"
    using forward_output_tuple_shape [OF ex_call_last] rl by blast
  have all: "\<exists>h h0 x y. run_layers ex_ops (ex_model ALL' False [[0, 1]]) 1 [0, 0] [[], []]
          [0, 4, 7] = Inr h
        \<and> first_item h = Inr h0
        \<and> first_item (lm_head (ex_model ALL' False [[0, 1]])
             (norm (ex_model ALL' False [[0, 1]]) (distribute_value (tensor_to ex_ops)
                (gather ex_ops h0 (UInt32Tensor (last_token_indices [0, 4, 7])) 0)
                (devices (ex_model ALL' False [[0, 1]])))) [0, 0]) = Inr x
        \<and> first_item (lm_head (ex_model ALL' False [[0, 1]])
             (norm (ex_model ALL' False [[0, 1]]) h) [0, 0]) = Inr y
        \<and> [Tensor 123630, Tensor 1239, IntTensor (UInt32Tensor [0, 4, 7])]
            = [Tensor (cast ex_ops x float32), Tensor (cast ex_ops y float32),
               IntTensor (UInt32Tensor [0, 4, 7])]"
    using forward_output_tuple_shape [OF ex_call_all] ra by blast
  from ex_call_last ex_call_all last all show ?thesis by blast
qed

theorem all_mode_projects_every_token_keeps_offsets_witness:
  "DistributedTransformer_call ex_ops (ex_model ALL' False [[0, 1]]) 1 [0, 0] [[], []] [1] [0, 4, 7]
       = Inr [Tensor 123630, Tensor 1239, IntTensor (UInt32Tensor [0, 4, 7])]
   \<and> return_logits (ex_model ALL' False [[0, 1]]) = ALL'
   \<and> (\<exists>h y. run_layers ex_ops (ex_model ALL' False [[0, 1]]) 1 [0, 0] [[], []] [0, 4, 7] = Inr h
        \<and> first_item (lm_head (ex_model ALL' False [[0, 1]])
             (norm (ex_model ALL' False [[0, 1]]) h) [0, 0]) = Inr y
        \<and> Tensor 1239 = Tensor (cast ex_ops y float32)
        \<and> [Tensor 123630, Tensor 1239, IntTensor (UInt32Tensor [0, 4, 7])] ! 2
            = IntTensor (UInt32Tensor [0, 4, 7]))"
proof -
  have rl: "return_logits (ex_model ALL' False [[0, 1]]) = ALL'"
    by (simp add: ex_model_def)
  show ?thesis
    using all_mode_projects_every_token_keeps_offsets [OF ex_call_all rl] ex_call_all rl by auto
qed

theorem last_token_indices_offsets_minus_one_witness:
  "length [0, 4, 7 :: 32 word] = Suc 2
   \<and> last_token_indices [0, 4, 7] = [3, 6]
   \<and> DistributedTransformer_call ex_ops (ex_model LAST_TOKEN False [[0, 1]]) 1 [0, 0] [[], []] [1]
       [0, 4, 7] = Inr [Tensor 123630]
   \<and> (\<exists>h h0 x. run_layers ex_ops (ex_model LAST_TOKEN False [[0, 1]]) 1 [0, 0] [[], []] [0, 4, 7]
          = Inr h
        \<and> first_item h = Inr h0
        \<and> first_item (lm_head (ex_model LAST_TOKEN False [[0, 1]])
             (norm (ex_model LAST_TOKEN False [[0, 1]]) (distribute_value (tensor_to ex_ops)
                (gather ex_ops h0 (UInt32Tensor [3, 6]) 0)
                (devices (ex_model LAST_TOKEN False [[0, 1]])))) [0, 0]) = Inr x
        \<and> Tensor 123630 = Tensor (cast ex_ops x float32))
   \<and> length [0, 0, 3 :: 32 word] = Suc 2
   \<and> last_token_indices [0, 0, 3] = [4294967295, 2]"
proof -
  have len: "length [0, 4, 7 :: 32 word] = Suc 2" by simp
  have m: "map (\<lambda>i. [0, 4, 7 :: 32 word] ! Suc i - 1) [0..<2] = [3, 6]"
    by (simp add: upt_conv_Cons del: upt_Suc)
  note t = last_token_indices_offsets_minus_one [OF len, of ex_ops
      "ex_model LAST_TOKEN False [[0, 1]]" 1 "[0, 0]" "[[], []]" "[1]"]
  have l: "last_token_indices [0, 4, 7] = [3, 6]"
    by (simp add: last_token_indices_def)
  have g: "\<exists>h h0 x. run_layers ex_ops (ex_model LAST_TOKEN False [[0, 1]]) 1 [0, 0] [[], []]
          [0, 4, 7] = Inr h
        \<and> first_item h = Inr h0
        \<and> first_item (lm_head (ex_model LAST_TOKEN False [[0, 1]])
             (norm (ex_model LAST_TOKEN False [[0, 1]]) (distribute_value (tensor_to ex_ops)
                (gather ex_ops h0 (UInt32Tensor [3, 6]) 0)
                (devices (ex_model LAST_TOKEN False [[0, 1]])))) [0, 0]) = Inr x
        \<and> Tensor 123630 = Tensor (cast ex_ops x float32)"
    using t ex_call_last unfolding m by auto
  have len0: "length [0, 0, 3 :: 32 word] = Suc 2" by simp
  have l0: "last_token_indices [0, 0, 3] = [4294967295, 2]"
    by (simp add: last_token_indices_def)
  from len l ex_call_last g len0 l0 show ?thesis by blast
qed

section \<open>The transformer block\<close>

lemma apply_shards_ok:
  "i + length ss \<le> length norm_outs \<Longrightarrow>
     apply_shards ss i norm_outs
       = Inr (map (\<lambda>j. shard_call (ss ! j) (norm_outs ! (i + j))) [0..<length ss])"
proof (induction ss arbitrary: i)
  case Nil
  then show ?case by simp
next
  case (Cons s ss)
  have ih: "apply_shards ss (Suc i) norm_outs
       = Inr (map (\<lambda>j. shard_call (ss ! j) (norm_outs ! (Suc i + j))) [0..<length ss])"
    using Cons.prems by (intro Cons.IH) simp
  have split: "[0..<length (s # ss)] = 0 # map Suc [0..<length ss]"
    by (simp add: upt_conv_Cons map_Suc_upt del: upt_Suc)
  show ?case
    using Cons.prems unfolding split by (simp add: ih comp_def)
qed

lemma apply_shards_short:
  "i \<le> length norm_outs \<Longrightarrow> length norm_outs < i + length ss \<Longrightarrow>
     apply_shards ss i norm_outs = Inl IndexError"
  by (induction ss arbitrary: i) auto

lemma apply_shards_cases:
  assumes "i \<le> length norm_outs"
  shows "(\<exists>outs. apply_shards ss i norm_outs = Inr outs \<and> i + length ss \<le> length norm_outs)
   \<or> (apply_shards ss i norm_outs = Inl IndexError \<and> length norm_outs < i + length ss)"
  using assms apply_shards_ok [of i ss norm_outs] apply_shards_short [of i norm_outs ss]
  by (cases "i + length ss \<le> length norm_outs") auto

lemma shard_weights_ok:
  "\<forall>s\<in>set ss. down_proj_weight s \<noteq> None \<Longrightarrow>
     shard_weights ss = Inr (map (\<lambda>s. the (down_proj_weight s)) ss)"
  by (induction ss) auto

lemma shard_weights_missing_one:
  "s \<in> set ss \<Longrightarrow> down_proj_weight s = None \<Longrightarrow> shard_weights ss = Inl AttributeError"
  by (induction ss) (auto split: option.splits sum.splits)

lemma shard_weights_missing:
  "\<exists>s\<in>set ss. down_proj_weight s = None \<Longrightarrow> shard_weights ss = Inl AttributeError"
  using shard_weights_missing_one by blast

lemma map2_plus_slots:
  "length xs = n \<Longrightarrow> length ys = n \<Longrightarrow> map2 (+) xs ys = map (\<lambda>i. xs ! i + ys ! i) [0..<n]"
  by (intro nth_equalityI) simp_all

text \<open>C7: for a block whose per-device lists all have the length of the device set
  (the input, the shards, and what the norms, the attention and the reduction return),
  and whose shards all carry the projection weight when the fused strategy is
  configured, \<open>__call__\<close> returns exactly the seven-step sequence of the specification,
  with slot \<open>i\<close> of every list computed from slot \<open>i\<close> of its inputs, and the result
  again has one slot per device.\<close>

theorem block_call_follows_sequence:
  fixes self :: "('t::plus, 'b, 'kv, 'o) DistributedTransformerBlock"
  assumes xs: "length xs = length (block_devices self)"
    and shards: "length (mlp_shards self) = length (block_devices self)"
    and pre: "\<And>ys. length (input_layernorm self ys) = length ys"
    and attn: "\<And>i ys b k ofs. length (self_attn self i ys b k ofs) = length ys"
    and post: "\<And>ys. length (post_attention_layernorm self ys) = length ys"
    and red: "\<And>ys b. length (allreduce self ys b) = length ys"
    and fred: "\<And>ys ws b. length (matmul_allreduce ops ys ws b) = length ys"
    and ws: "\<And>cfg. distributed_gemm_config self = Some cfg \<Longrightarrow> enable_matmul_allreduce cfg \<Longrightarrow>
               \<forall>s\<in>set (mlp_shards self). down_proj_weight s \<noteq> None"
  shows "DistributedTransformerBlock_call ops self layer_idx xs sb kv offs
           = Inr (block_sequence ops self (length (block_devices self)) layer_idx xs sb kv offs)
         \<and> length (block_sequence ops self (length (block_devices self)) layer_idx xs sb kv offs)
           = length (block_devices self)"
proof -
  let ?n = "length (block_devices self)"
  let ?attn = "self_attn self layer_idx (input_layernorm self xs) sb kv offs"
  let ?hs = "map2 (+) xs ?attn"
  let ?hidden = "map (\<lambda>i. xs ! i + ?attn ! i) [0..<?n]"
  let ?norm = "post_attention_layernorm self ?hidden"
  let ?partials = "map (\<lambda>i. shard_call (mlp_shards self ! i) (?norm ! i)) [0..<?n]"
  have la: "length ?attn = ?n" by (simp add: attn pre xs)
  have hs: "?hs = ?hidden" by (rule map2_plus_slots [OF xs la])
  have ln: "length ?norm = ?n" by (simp add: post)
  have ap: "apply_shards (mlp_shards self) 0 ?norm = Inr ?partials"
    using apply_shards_ok [of 0 "mlp_shards self" ?norm] shards ln by simp
  have lp: "length ?partials = ?n" by simp
  have fin: "\<And>rs. length rs = ?n \<Longrightarrow> map2 (+) ?hidden rs = map (\<lambda>i. ?hidden ! i + rs ! i) [0..<?n]"
    by (rule map2_plus_slots) simp_all
  have len: "length (block_sequence ops self ?n layer_idx xs sb kv offs) = ?n"
    by (simp add: block_sequence_def Let_def)
  have call: "DistributedTransformerBlock_call ops self layer_idx xs sb kv offs
           = Inr (block_sequence ops self ?n layer_idx xs sb kv offs)"
  proof (cases "distributed_gemm_config self")
    case None
    have "length (allreduce self ?partials sb) = ?n" by (simp add: red)
    from fin [OF this] show ?thesis
      unfolding DistributedTransformerBlock_call_def block_sequence_def Let_def hs ap
      by (simp add: None)
  next
    case (Some cfg)
    show ?thesis
    proof (cases "enable_matmul_allreduce cfg")
      case False
      have "length (allreduce self ?partials sb) = ?n" by (simp add: red)
      from fin [OF this] show ?thesis
        unfolding DistributedTransformerBlock_call_def block_sequence_def Let_def hs ap
        by (simp add: Some False)
    next
      case True
      let ?ws = "map (\<lambda>i. the (down_proj_weight (mlp_shards self ! i))) [0..<?n]"
      have "shard_weights (mlp_shards self)
              = Inr (map (\<lambda>s. the (down_proj_weight s)) (mlp_shards self))"
        using ws [OF Some True] by (rule shard_weights_ok)
      moreover have "map (\<lambda>s. the (down_proj_weight s)) (mlp_shards self) = ?ws"
        using shards by (intro nth_equalityI) simp_all
      ultimately have sw: "shard_weights (mlp_shards self) = Inr ?ws" by simp
      have "length (matmul_allreduce ops ?partials ?ws sb) = ?n" by (simp add: fred)
      from fin [OF this] show ?thesis
        unfolding DistributedTransformerBlock_call_def block_sequence_def Let_def hs ap
        by (simp add: Some True sw)
    qed
  qed
  show ?thesis using call len by simp
qed

lemma block_init_fields:
  "mlp_shards (DistributedTransformerBlock_init Allreduce att mlp0 n1 n2 devs gemm)
     = shard (mlp0\<lparr>sharding_strategy := Some (tensor_parallel (length devs))\<rparr>) devs"
  "distributed_gemm_config (DistributedTransformerBlock_init Allreduce att mlp0 n1 n2 devs gemm)
     = gemm"
  by (simp_all add: DistributedTransformerBlock_init_def Let_def)

text \<open>C2, as the code has it: the constructor makes no check. For a block constructed
  with the fused strategy enabled and with a shard whose \<open>down_proj.weight\<close> is not
  retrievable, every \<open>__call__\<close> fails: with the AttributeError of the weight lookup on
  line 119 whenever the MLP shards could be applied, and otherwise with the IndexError
  of line 107.\<close>

theorem fused_missing_weight_fails_at_call:
  assumes en: "enable_matmul_allreduce cfg"
    and self: "self = DistributedTransformerBlock_init Allreduce att mlp0 n1 n2 devs (Some cfg)"
    and miss: "\<exists>s\<in>set (mlp_shards self). down_proj_weight s = None"
  shows "\<exists>e. DistributedTransformerBlock_call ops self layer_idx xs sb kv offs = Inl e
     \<and> (e = AttributeError \<or> e = IndexError)
     \<and> (length (mlp_shards self)
           \<le> length (post_attention_layernorm self
                (map2 (+) xs (self_attn self layer_idx (input_layernorm self xs) sb kv offs)))
         \<longrightarrow> e = AttributeError)"
proof -
  have cfg: "distributed_gemm_config self = Some cfg"
    unfolding self by (rule block_init_fields)
  show ?thesis
    using apply_shards_cases [of 0
      "post_attention_layernorm self
         (map2 (+) xs (self_attn self layer_idx (input_layernorm self xs) sb kv offs))"
      "mlp_shards self"]
    shard_weights_missing [OF miss] en cfg
    by (auto simp: DistributedTransformerBlock_call_def Let_def)
qed

lemmas ex_block_defs = ex_block_def ex_mlp_def ex_shard_def ex_ops_def
  DistributedTransformerBlock_init_def DistributedTransformerBlock_call_def shard_def Let_def

text \<open>C2 as stated fails: the example block is constructed with the fused strategy
  and shards without the weight, and the error appears in \<open>__call__\<close>.\<close>

theorem fused_missing_weight_counterexample:
  "map down_proj_weight
       (mlp_shards (ex_block False (Some \<lparr>enable_matmul_allreduce = True\<rparr>) 2)) = [None, None]
   \<and> distributed_gemm_config (ex_block False (Some \<lparr>enable_matmul_allreduce = True\<rparr>) 2)
       = Some \<lparr>enable_matmul_allreduce = True\<rparr>
   \<and> DistributedTransformerBlock_call ex_ops
       (ex_block False (Some \<lparr>enable_matmul_allreduce = True\<rparr>) 2) 0 [1, 1] [0, 0] [0, 0]
       [[0, 4, 7], [0, 4, 7]] = Inl AttributeError"
  by (simp add: ex_block_defs)

theorem fused_missing_weight_fails_at_call_witness:
  "enable_matmul_allreduce \<lparr>enable_matmul_allreduce = True\<rparr>
   \<and> (\<exists>s\<in>set (mlp_shards (ex_block False (Some \<lparr>enable_matmul_allreduce = True\<rparr>) 2)).
         down_proj_weight s = None)
   \<and> DistributedTransformerBlock_call ex_ops
       (ex_block False (Some \<lparr>enable_matmul_allreduce = True\<rparr>) 2) 0 [1, 1] [0, 0] [0, 0]
       [[0, 4, 7], [0, 4, 7]] = Inl AttributeError"
proof -
  let ?cfg = "\<lparr>enable_matmul_allreduce = True\<rparr>"
  let ?blk = "ex_block False (Some ?cfg) 2"
  have en: "enable_matmul_allreduce ?cfg" by simp
  have miss: "\<exists>s\<in>set (mlp_shards ?blk). down_proj_weight s = None"
    by (simp add: ex_block_defs)
  have len: "length (mlp_shards ?blk)
           \<le> length (post_attention_layernorm ?blk
                (map2 (+) [1, 1] (self_attn ?blk 0 (input_layernorm ?blk [1, 1]) [0, 0] [0, 0]
                   [[0, 4, 7], [0, 4, 7]])))"
    by (simp add: ex_block_defs)
  from fused_missing_weight_fails_at_call [OF en ex_block_def miss, of ex_ops 0 "[1, 1]" "[0, 0]" "[0, 0]" "[[0, 4, 7], [0, 4, 7]]"] len
  have "DistributedTransformerBlock_call ex_ops ?blk 0 [1, 1] [0, 0] [0, 0]
          [[0, 4, 7], [0, 4, 7]] = Inl AttributeError"
    by blast
  with en miss show ?thesis by blast
qed

theorem block_call_follows_sequence_witness:
  "length [1, 1 :: int] = length (block_devices (ex_block True None 2))
   \<and> length (mlp_shards (ex_block True None 2)) = length (block_devices (ex_block True None 2))
   \<and> DistributedTransformerBlock_call ex_ops (ex_block True None 2) 0 [1, 1] [0, 0] [0, 0]
        [[0, 4, 7], [0, 4, 7]] = Inr [19, 19]
   \<and> block_sequence ex_ops (ex_block True None 2) 2 0 [1, 1] [0, 0] [0 :: nat, 0]
        [[0, 4, 7], [0, 4, 7]] = [19, 19]"
proof -
  let ?blk = "ex_block True None 2 :: (int, nat, nat, 32 word list) DistributedTransformerBlock"
  have n: "length (block_devices ?blk) = 2" by (simp add: ex_block_defs)
  have xs: "length [1, 1 :: int] = length (block_devices ?blk)" by (simp add: ex_block_defs)
  have shards: "length (mlp_shards ?blk) = length (block_devices ?blk)"
    by (simp add: ex_block_defs)
  have pre: "\<And>ys. length (input_layernorm ?blk ys) = length ys" by (simp add: ex_block_defs)
  have attn: "\<And>i ys b k ofs. length (self_attn ?blk i ys b k ofs) = length ys"
    by (simp add: ex_block_defs)
  have post: "\<And>ys. length (post_attention_layernorm ?blk ys) = length ys"
    by (simp add: ex_block_defs)
  have red: "\<And>ys b. length (allreduce ?blk ys b) = length ys" by (simp add: ex_block_defs)
  have fred: "\<And>ys ws b. length (matmul_allreduce ex_ops ys ws b) = length ys"
    by (simp add: ex_ops_def)
  have ws: "\<And>cfg. distributed_gemm_config ?blk = Some cfg \<Longrightarrow> enable_matmul_allreduce cfg \<Longrightarrow>
               \<forall>s\<in>set (mlp_shards ?blk). down_proj_weight s \<noteq> None"
    by (simp add: ex_block_defs)
  have val: "DistributedTransformerBlock_call ex_ops ?blk 0 [1, 1] [0, 0] [0, 0]
        [[0, 4, 7], [0, 4, 7]] = Inr [19, 19]"
    by (simp add: ex_block_defs)
  from block_call_follows_sequence [OF xs shards pre attn post red fred ws, where layer_idx = 0 and sb = "[0, 0]"
      and kv = "[0, 0]" and offs = "[[0, 4, 7], [0, 4, 7]]"]
  show ?thesis using val xs shards unfolding n by simp
qed

section \<open>Subgraph groups\<close>


lemma logit_extraction_use_subgraphs:
  "logit_extraction ops (self\<lparr>use_subgraphs := b\<rparr>) h sb rn offs
     = logit_extraction ops self h sb rn offs"
  by (simp add: logit_extraction_def Let_def cong: sum.case_cong if_cong)






lemma find_group_Some:
  "find_group idx groups k = Some j \<Longrightarrow>
     k \<le> j \<and> j - k < length groups \<and> int idx \<in> set (groups ! (j - k))"
proof (induction groups arbitrary: k)
  case Nil
  then show ?case by simp
next
  case (Cons g rest)
  show ?case
  proof (cases "int idx \<in> set g")
    case True
    with Cons.prems show ?thesis by simp
  next
    case False
    with Cons.prems have "find_group idx rest (Suc k) = Some j" by simp
    from Cons.IH [OF this] have "Suc k \<le> j" "j - Suc k < length rest"
      "int idx \<in> set (rest ! (j - Suc k))" by simp_all
    moreover from \<open>Suc k \<le> j\<close> have "j - k = Suc (j - Suc k)" by simp
    ultimately show ?thesis by simp
  qed
qed

lemma build_subgraphs_templates:
  assumes "\<forall>g\<in>set groups. g \<noteq> [] \<and>
             (\<exists>t. list_index ls (hd g) = Inr t \<and> is_block (layer_module t))"
  shows "\<exists>sgs. build_subgraphs ls groups k = Inr sgs \<and> length sgs = length groups
     \<and> (\<forall>j<length groups. \<forall>t. list_index ls (hd (groups ! j)) = Inr t \<longrightarrow>
            sg_template (sgs ! j) = arch t)"
  using assms
proof (induction groups arbitrary: k)
  case Nil
  then show ?case by simp
next
  case (Cons g rest)
  from Cons.prems obtain t where
    g: "g \<noteq> []" and t: "list_index ls (hd g) = Inr t" and b: "is_block (layer_module t)"
    by auto
  from Cons.prems have "\<forall>g\<in>set rest. g \<noteq> [] \<and>
             (\<exists>t. list_index ls (hd g) = Inr t \<and> is_block (layer_module t))" by simp
  from Cons.IH [OF this, of "Suc k"] obtain sgs where
    sgs: "build_subgraphs ls rest (Suc k) = Inr sgs" and len: "length sgs = length rest" and
    tm: "\<forall>j<length rest. \<forall>t. list_index ls (hd (rest ! j)) = Inr t \<longrightarrow>
            sg_template (sgs ! j) = arch t" by blast
  have bs: "build_subgraphs ls (g # rest) k = Inr (build_subgraph t k (hd g) # sgs)"
    using g t b sgs by simp
  have "\<forall>j<length (g # rest). \<forall>t'. list_index ls (hd ((g # rest) ! j)) = Inr t' \<longrightarrow>
            sg_template ((build_subgraph t k (hd g) # sgs) ! j) = arch t'"
  proof (intro allI impI)
    fix j t'
    assume j: "j < length (g # rest)" and t': "list_index ls (hd ((g # rest) ! j)) = Inr t'"
    show "sg_template ((build_subgraph t k (hd g) # sgs) ! j) = arch t'"
    proof (cases j)
      case 0
      with t t' show ?thesis by (simp add: build_subgraph_def)
    next
      case (Suc j')
      with j t' tm show ?thesis by simp
    qed
  qed
  with bs len show ?case by simp
qed

lemma list_index_nat: "j < length xs \<Longrightarrow> list_index xs (int j) = Inr (xs ! j)"
  by (simp add: list_index_def)

lemma run_subgraph_layers_direct:
  assumes valid: "\<forall>g\<in>set groups. g \<noteq> [] \<and>
             (\<exists>t. list_index full (hd g) = Inr t \<and> is_block (layer_module t)
                  \<and> (\<forall>idx<length full. int idx \<in> set g \<longrightarrow> arch (full ! idx) = arch t))"
    and len: "length sgs = length groups"
    and tm: "\<forall>j<length groups. \<forall>t. list_index full (hd (groups ! j)) = Inr t \<longrightarrow>
            sg_template (sgs ! j) = arch t"
    and suffix: "drop idx full = rest"
  shows "run_subgraph_layers ops sgs groups rest idx h sb kv offs
           = run_direct_layers ops rest idx h sb kv offs"
  using suffix
proof (induction rest arbitrary: idx h)
  case Nil
  then show ?case by simp
next
  case (Cons l rest)
  have idx: "idx < length full"
    using Cons.prems by (cases "idx < length full") auto
  have l: "full ! idx = l"
    using Cons.prems idx by (metis nth_via_drop)
  have nxt: "drop (Suc idx) full = rest"
    using Cons.prems by (metis drop_Suc list.sel(3) tl_drop)
  have step: "(case find_group idx groups 0 of
           Some group_idx \<Rightarrow>
             (case list_index sgs (int group_idx) of
                Inl e \<Rightarrow> Inl e
              | Inr sg \<Rightarrow> ops_call ops sg (weights l) idx h sb kv offs)
         | None \<Rightarrow> module_call ops (layer_module l) idx h sb kv offs)
        = module_call ops (layer_module l) idx h sb kv offs"
  proof (cases "find_group idx groups 0")
    case None
    then show ?thesis by simp
  next
    case (Some j)
    from find_group_Some [OF Some] have j: "j < length groups" and
      mem: "int idx \<in> set (groups ! j)" by simp_all
    from valid j obtain t where
      t: "list_index full (hd (groups ! j)) = Inr t" and
      same: "\<forall>i<length full. int i \<in> set (groups ! j) \<longrightarrow> arch (full ! i) = arch t"
      by (metis nth_mem)
    have "sg_template (sgs ! j) = arch t" using tm j t by blast
    moreover have "arch l = arch t" using same idx mem l by blast
    moreover have "list_index sgs (int j) = Inr (sgs ! j)"
      using j len by (simp add: list_index_nat)
    ultimately show ?thesis
      by (simp add: Some ops_call_def layer_module_def)
  qed
  show ?case
    using Cons.IH [OF nxt] by (simp add: step cong: sum.case_cong)
qed

lemma well_formed_groups_templates:
  assumes "well_formed_groups ls groups"
  shows "\<forall>g\<in>set groups. g \<noteq> [] \<and>
             (\<exists>t. list_index ls (hd g) = Inr t \<and> is_block (layer_module t)
                  \<and> (\<forall>idx<length ls. int idx \<in> set g \<longrightarrow> arch (ls ! idx) = arch t))"
proof
  fix g assume g: "g \<in> set groups"
  from assms g have ne: "g \<noteq> []"
    unfolding well_formed_groups_def by blast
  from assms g have rng: "\<forall>i\<in>set g. 0 \<le> i \<and> i < int (length ls)"
    unfolding well_formed_groups_def by blast
  from assms g have blk: "is_block (layer_module (ls ! nat (hd g)))"
    unfolding well_formed_groups_def by blast
  from assms g have same: "\<forall>i\<in>set g. arch (ls ! nat i) = arch (ls ! nat (hd g))"
    unfolding well_formed_groups_def by blast
  from ne have "hd g \<in> set g" by simp
  with rng have "0 \<le> hd g" "hd g < int (length ls)" by blast+
  then have t: "list_index ls (hd g) = Inr (ls ! nat (hd g))"
    by (simp add: list_index_def)
  have id: "\<forall>idx<length ls. int idx \<in> set g \<longrightarrow> arch (ls ! idx) = arch (ls ! nat (hd g))"
  proof (intro allI impI)
    fix idx assume "idx < length ls" and m: "int idx \<in> set g"
    from same m have "arch (ls ! nat (int idx)) = arch (ls ! nat (hd g))" by (rule bspec)
    then show "arch (ls ! idx) = arch (ls ! nat (hd g))" by simp
  qed
  from ne t blk id
  show "g \<noteq> [] \<and>
             (\<exists>t. list_index ls (hd g) = Inr t \<and> is_block (layer_module t)
                  \<and> (\<forall>idx<length ls. int idx \<in> set g \<longrightarrow> arch (ls ! idx) = arch t))"
    by (intro conjI exI [of _ "ls ! nat (hd g)"])
qed

text \<open>C8, as the code has it: the forward call with \<open>use_subgraphs = True\<close> returns what
  the call with \<open>use_subgraphs = False\<close> returns, for the same weights, devices and
  inputs, when the groups of the model are as the specification requires them (groups
  non-empty, their indices layers of the stack, every layer in at most one group, the
  template layer a DistributedTransformerBlock) and every layer that shares a compiled
  unit is structurally identical to the unit's template layer.\<close>

theorem subgraph_mode_equals_direct_mode:
  assumes wf: "well_formed_groups (layers self) (subgraph_layer_groups self)"
  shows "DistributedTransformer_call ops (self\<lparr>use_subgraphs := True\<rparr>) tokens sb kvs rn offs
       = DistributedTransformer_call ops (self\<lparr>use_subgraphs := False\<rparr>) tokens sb kvs rn offs"
proof -
  note valid = well_formed_groups_templates [OF wf]
  from valid have "\<forall>g\<in>set (subgraph_layer_groups self). g \<noteq> [] \<and>
             (\<exists>t. list_index (layers self) (hd g) = Inr t \<and> is_block (layer_module t))"
    by blast
  from build_subgraphs_templates [OF this, of 0] obtain sgs where
    sgs: "build_subgraphs (layers self) (subgraph_layer_groups self) 0 = Inr sgs" and
    len: "length sgs = length (subgraph_layer_groups self)" and
    tm: "\<forall>j<length (subgraph_layer_groups self). \<forall>t.
           list_index (layers self) (hd (subgraph_layer_groups self ! j)) = Inr t \<longrightarrow>
            sg_template (sgs ! j) = arch t" by blast
  have "drop 0 (layers self) = layers self" by simp
  note eq = run_subgraph_layers_direct [OF valid len tm this]
  have "run_layers ops (self\<lparr>use_subgraphs := True\<rparr>) tokens sb kvs offs
      = run_layers ops (self\<lparr>use_subgraphs := False\<rparr>) tokens sb kvs offs"
    by (simp add: run_layers_def Let_def sgs eq)
  then show ?thesis
    by (simp add: DistributedTransformer_call_def logit_extraction_use_subgraphs
          cong: sum.case_cong)
qed

lemmas ex_mixed_defs = ex_mixed_model_def ex_shifted_layer_def ex_shifted_block_def

text \<open>C8 as stated fails on a stack of two blocks of different structure, constructed
  with no groups given: the constructor puts both layers into the one default group, so
  that in subgraph mode layer 1 runs through the unit built from layer 0. The groups are
  the code's own, the weights, devices and inputs are the same, and the two modes return
  different logits.\<close>

theorem subgraph_mode_counterexample:
  "DistributedTransformer_init 4 2 [ex_layer 2, ex_shifted_layer 3] ex_norm ex_lm_head ex_embed
       ex_kv [GPU 0, GPU 1] LAST_TOKEN True None
     = Inr (ex_mixed_model LAST_TOKEN True [[0, 1]])
   \<and> DistributedTransformer_init 4 2 [ex_layer 2, ex_shifted_layer 3] ex_norm ex_lm_head ex_embed
       ex_kv [GPU 0, GPU 1] LAST_TOKEN False None
     = Inr (ex_mixed_model LAST_TOKEN False [[0, 1]])
   \<and> DistributedTransformer_call ex_ops (ex_mixed_model LAST_TOKEN True [[0, 1]])
       1 [0, 0] [[], []] [1] [0, 4, 7]
     = Inr [Tensor 123630]
   \<and> DistributedTransformer_call ex_ops (ex_mixed_model LAST_TOKEN False [[0, 1]])
       1 [0, 0] [[], []] [1] [0, 4, 7]
     = Inr [Tensor 134130]"
proof -
  have groups: "[map int [0..<length [ex_layer 2, ex_shifted_layer 3]]] = [[0, 1]]"
    by (simp add: upt_conv_Cons del: upt_Suc)
  have i1: "DistributedTransformer_init 4 2 [ex_layer 2, ex_shifted_layer 3] ex_norm ex_lm_head
       ex_embed ex_kv [GPU 0, GPU 1] LAST_TOKEN True None
     = Inr (ex_mixed_model LAST_TOKEN True [[0, 1]])"
    unfolding DistributedTransformer_init_def ex_mixed_model_def Let_def option.case groups
    by simp
  have i2: "DistributedTransformer_init 4 2 [ex_layer 2, ex_shifted_layer 3] ex_norm ex_lm_head
       ex_embed ex_kv [GPU 0, GPU 1] LAST_TOKEN False None
     = Inr (ex_mixed_model LAST_TOKEN False [[0, 1]])"
    unfolding DistributedTransformer_init_def ex_mixed_model_def Let_def option.case groups
    by simp
  have c1: "DistributedTransformer_call ex_ops (ex_mixed_model LAST_TOKEN True [[0, 1]])
       1 [0, 0] [[], []] [1] [0, 4, 7] = Inr [Tensor 123630]"
    by (simp add: ex_defs ex_mixed_defs)
  have c2: "DistributedTransformer_call ex_ops (ex_mixed_model LAST_TOKEN False [[0, 1]])
       1 [0, 0] [[], []] [1] [0, 4, 7] = Inr [Tensor 134130]"
    by (simp add: ex_defs ex_mixed_defs)
  from i1 i2 c1 c2 show ?thesis by blast
qed

lemma ex_well_formed:
  "well_formed_groups (layers (ex_model ALL' False [[1, 0]]))
     (subgraph_layer_groups (ex_model ALL' False [[1, 0]]))"
  by (simp add: well_formed_groups_def ex_model_def ex_layer_def layer_module_def)

theorem subgraph_mode_equals_direct_mode_witness:
  "well_formed_groups (layers (ex_model ALL' False [[1, 0]]))
     (subgraph_layer_groups (ex_model ALL' False [[1, 0]]))
   \<and> DistributedTransformer_call ex_ops ((ex_model ALL' False [[1, 0]])\<lparr>use_subgraphs := True\<rparr>)
       1 [0, 0] [[], []] [1] [0, 4, 7]
     = Inr [Tensor 123630, Tensor 1239, IntTensor (UInt32Tensor [0, 4, 7])]
   \<and> DistributedTransformer_call ex_ops ((ex_model ALL' False [[1, 0]])\<lparr>use_subgraphs := False\<rparr>)
       1 [0, 0] [[], []] [1] [0, 4, 7]
     = Inr [Tensor 123630, Tensor 1239, IntTensor (UInt32Tensor [0, 4, 7])]"
proof -
  have d: "DistributedTransformer_call ex_ops
       ((ex_model ALL' False [[1, 0]])\<lparr>use_subgraphs := False\<rparr>)
       1 [0, 0] [[], []] [1] [0, 4, 7]
     = Inr [Tensor 123630, Tensor 1239, IntTensor (UInt32Tensor [0, 4, 7])]"
    by (simp add: ex_defs)
  show ?thesis
    using subgraph_mode_equals_direct_mode [OF ex_well_formed, of ex_ops 1 "[0, 0]" "[[], []]"
        "[1]" "[0, 4, 7]"] d ex_well_formed
    by simp
qed

end
